theory Spec2Isabelle
  imports Main "HOL-Library.Word"
begin

section \<open>Data model (internal/models, internal/dto)\<close>

text \<open>
  Identifiers are UUIDs; only equality and freshness matter, so they are natural numbers
  with \<open>uuid.Nil\<close> as 0.  Amounts and balances are Go \<open>int64\<close>: 64-bit words whose
  addition and subtraction wrap around and whose comparison \<open><\<close> is the signed one.
  Columns that no ledger operation reads or writes (names, phone numbers, timestamps of
  creation, preloaded associations) are left out of the rows.
\<close>

type_synonym uuid = nat
type_synonym int64 = "64 word"

definition uuid_Nil :: uuid where
  "uuid_Nil = 0"

record User =
  u_ID :: uuid
  u_Balance :: int64

record Group =
  g_ID :: uuid
  g_Balance :: int64

record UserGroup =
  ug_UserID :: uuid
  ug_GroupID :: uuid
  ug_Role :: string
  ug_Status :: string

datatype json_value = JBool bool | JInt int64 | JStr string | JUuid uuid

record Transaction =
  t_ID :: uuid
  t_OwnerType :: string
  t_OwnerID :: uuid
  t_Type :: string
  t_Amount :: int64
  t_Balance :: int64
  t_Category :: string
  t_Source :: string
  t_Description :: string
  t_Metadata :: "(string \<times> json_value) list"
  t_GroupID :: "uuid option"
  t_PaidBy :: "uuid option"
  t_PlannedExpenseID :: "uuid option"
  t_UserID :: uuid

record PlannedExpense =
  pe_ID :: uuid
  pe_EstimatedPrice :: int64
  pe_ActualPrice :: "int64 option"
  pe_Category :: string
  pe_Status :: string
  pe_GroupID :: "uuid option"
  pe_UserID :: uuid
  pe_PaidBy :: "uuid option"
  pe_PaidAt :: "nat option"

record AuditLog =
  al_ID :: uuid
  al_Entity :: string
  al_EntityID :: uuid
  al_Action :: string
  al_Changes :: "(string \<times> json_value) list"
  al_PerformedBy :: uuid
  al_GroupID :: "uuid option"

text \<open>The request and response structures of the transaction DTOs.\<close>

record CreateTransactionRequest =
  rq_Type :: string
  rq_Amount :: int64
  rq_Category :: string
  rq_Source :: string
  rq_Description :: string
  rq_GroupID :: "uuid option"
  rq_PaidBy :: "uuid option"
  rq_PlannedExpenseID :: "uuid option"

record TransferToGroupRequest =
  tr_GroupID :: uuid
  tr_Amount :: int64
  tr_Description :: string

record PayGroupExpenseRequest =
  pr_PlannedExpenseID :: uuid
  pr_ActualPrice :: int64
  pr_Description :: string

record TransactionResponse =
  rs_ID :: uuid
  rs_OwnerType :: string
  rs_OwnerID :: uuid
  rs_Type :: string
  rs_Amount :: int64
  rs_Balance :: int64
  rs_Category :: string
  rs_Source :: string
  rs_Description :: string
  rs_GroupID :: "uuid option"
  rs_PaidBy :: "uuid option"
  rs_PlannedExpenseID :: "uuid option"

record AppError =
  Code :: string
  Message :: string

text \<open>
  A Go call returning \<open>(*dto.TransactionResponse, error)\<close>: each component may be nil.
\<close>

type_synonym result = "TransactionResponse option \<times> AppError option"

section \<open>The database\<close>

text \<open>
  One table per model, its rows in the order in which \<open>First\<close> meets them.  Soft-deleted
  rows are invisible to every query used here, so a table holds the visible rows only.
  Queries are evaluated on the store and do not fail for reasons of their own: a lookup
  either finds its row or reports that there is none.  Writes can fail, see below.
\<close>

record store =
  users :: "User list"
  groups :: "Group list"
  user_groups :: "UserGroup list"
  transactions :: "Transaction list"
  planned_expenses :: "PlannedExpense list"
  audit_logs :: "AuditLog list"

text \<open>
  \<open>uuid.New()\<close> draws a random identifier.  The model takes the collision-free case:
  the new identifier is larger than every identifier of the table it is inserted into
  (and so differs from \<open>uuid.Nil\<close>).
\<close>

definition uuid_New :: "uuid list \<Rightarrow> uuid" where
  "uuid_New used = Suc (foldr max used 0)"

text \<open>The \<open>BeforeCreate\<close> hooks of Transaction and AuditLog.\<close>

definition Transaction_BeforeCreate :: "store \<Rightarrow> Transaction \<Rightarrow> Transaction" where
  "Transaction_BeforeCreate tx t =
     (if t_ID t = uuid_Nil then t\<lparr>t_ID := uuid_New (map t_ID (transactions tx))\<rparr> else t)"

definition AuditLog_BeforeCreate :: "store \<Rightarrow> AuditLog \<Rightarrow> AuditLog" where
  "AuditLog_BeforeCreate tx a =
     (if al_ID a = uuid_Nil then a\<lparr>al_ID := uuid_New (map al_ID (audit_logs tx))\<rparr> else a)"

text \<open>
  A database transaction \<open>tx := s.db.Begin()\<close> works on a private copy of the store;
  \<open>tx.Rollback()\<close> discards the copy and \<open>tx.Commit()\<close> installs it.  Each write through
  \<open>tx\<close> may fail in the storage layer: the parameter \<open>fails\<close> of the operations below
  tells, for the k-th write statement of the atomic unit (counted from 0, the commit
  included), whether the storage reports an error.
\<close>

definition Begin :: "store \<Rightarrow> store" where
  "Begin db = db"

definition Rollback :: "store \<Rightarrow> store \<Rightarrow> store" where
  "Rollback db tx = db"

definition Commit :: "store \<Rightarrow> store \<Rightarrow> store" where
  "Commit db tx = tx"

definition tx_Create_Transaction :: "store \<Rightarrow> Transaction \<Rightarrow> store \<times> Transaction" where
  "tx_Create_Transaction tx t =
     (let t' = Transaction_BeforeCreate tx t
      in (tx\<lparr>transactions := transactions tx @ [t']\<rparr>, t'))"

definition tx_Create_AuditLog :: "store \<Rightarrow> AuditLog \<Rightarrow> store \<times> AuditLog" where
  "tx_Create_AuditLog tx a =
     (let a' = AuditLog_BeforeCreate tx a
      in (tx\<lparr>audit_logs := audit_logs tx @ [a']\<rparr>, a'))"

text \<open>\<open>tx.Save(row)\<close> writes every column of the row with that primary key, or inserts it.\<close>

definition tx_Save_User :: "store \<Rightarrow> User \<Rightarrow> store" where
  "tx_Save_User tx u =
     tx\<lparr>users := (if list_ex (\<lambda>r. u_ID r = u_ID u) (users tx)
                   then map (\<lambda>r. if u_ID r = u_ID u then u else r) (users tx)
                   else users tx @ [u])\<rparr>"

definition tx_Save_Group :: "store \<Rightarrow> Group \<Rightarrow> store" where
  "tx_Save_Group tx g =
     tx\<lparr>groups := (if list_ex (\<lambda>r. g_ID r = g_ID g) (groups tx)
                    then map (\<lambda>r. if g_ID r = g_ID g then g else r) (groups tx)
                    else groups tx @ [g])\<rparr>"

definition tx_Save_PlannedExpense :: "store \<Rightarrow> PlannedExpense \<Rightarrow> store" where
  "tx_Save_PlannedExpense tx e =
     tx\<lparr>planned_expenses := (if list_ex (\<lambda>r. pe_ID r = pe_ID e) (planned_expenses tx)
                    then map (\<lambda>r. if pe_ID r = pe_ID e then e else r) (planned_expenses tx)
                    else planned_expenses tx @ [e])\<rparr>"

section \<open>Repositories\<close>

text \<open>
  \<open>user_row\<close> is the query \<open>Where("id = ?", id).First(&user)\<close> on the user table.
  \<open>userRepository.FindByID\<close> returns a pair, the user and the error; it turns \<open>gorm.ErrRecordNotFound\<close> into \<open>(nil, nil)\<close>: the
  result is the row or nil, and the error is nil either way, so the caller's branch for
  a non-nil error is taken only on a failure of the query itself.  The other
  repositories return the error of \<open>First\<close>, which is \<open>None\<close> here.
\<close>

definition user_row :: "store \<Rightarrow> uuid \<Rightarrow> User option" where
  "user_row db i = find (\<lambda>u. u_ID u = i) (users db)"

definition userRepo_FindByID :: "store \<Rightarrow> uuid \<Rightarrow> User option \<times> string option" where
  "userRepo_FindByID db i =
     (case user_row db i of
        None \<Rightarrow> (None, None)
      | Some user \<Rightarrow> (Some user, None))"

definition groupRepo_FindByID :: "store \<Rightarrow> uuid \<Rightarrow> Group option" where
  "groupRepo_FindByID db i = find (\<lambda>g. g_ID g = i) (groups db)"

definition groupRepo_FindByUserAndGroup :: "store \<Rightarrow> uuid \<Rightarrow> uuid \<Rightarrow> UserGroup option" where
  "groupRepo_FindByUserAndGroup db userID groupID =
     find (\<lambda>m. ug_UserID m = userID \<and> ug_GroupID m = groupID) (user_groups db)"

definition expenseRepo_FindByID :: "store \<Rightarrow> uuid \<Rightarrow> PlannedExpense option" where
  "expenseRepo_FindByID db i = find (\<lambda>e. pe_ID e = i) (planned_expenses db)"

definition transactionRepo_FindByID :: "store \<Rightarrow> uuid \<Rightarrow> Transaction option" where
  "transactionRepo_FindByID db i = find (\<lambda>t. t_ID t = i) (transactions db)"

text \<open>
  \<open>transactionRepository.GetBalance\<close>.  The database computes
  \<open>SUM(CASE WHEN type = 'CREDIT' THEN amount ELSE -amount END)\<close> over the rows of one
  owner.  The sum is exact: it is a sum of integers that does not wrap around (over no
  rows it is read as 0).  The query fails when \<open>-amount\<close> leaves the range of the
  column type, which is the case for the least \<open>int64\<close> only, and the scan of the result
  into an \<open>int64\<close> fails when the sum is outside the range of \<open>int64\<close>; both are the
  error return of the function.
\<close>

definition signed_amount :: "Transaction \<Rightarrow> int" where
  "signed_amount t =
     (if t_Type t = ''CREDIT'' then sint (t_Amount t) else - sint (t_Amount t))"

definition transaction_sum :: "store \<Rightarrow> string \<Rightarrow> uuid \<Rightarrow> int" where
  "transaction_sum db ownerType ownerID =
     sum_list (map signed_amount
       (filter (\<lambda>t. t_OwnerType t = ownerType \<and> t_OwnerID t = ownerID) (transactions db)))"

definition fits_int64 :: "int \<Rightarrow> bool" where
  "fits_int64 k \<longleftrightarrow> - (2 ^ 63) \<le> k \<and> k < 2 ^ 63"

definition negation_fails :: "Transaction \<Rightarrow> bool" where
  "negation_fails t \<longleftrightarrow> t_Type t \<noteq> ''CREDIT'' \<and> \<not> fits_int64 (- sint (t_Amount t))"

definition GetBalance :: "store \<Rightarrow> string \<Rightarrow> uuid \<Rightarrow> int64 option" where
  "GetBalance db ownerType ownerID =
     (let total = transaction_sum db ownerType ownerID
      in if list_ex negation_fails
              (filter (\<lambda>t. t_OwnerType t = ownerType \<and> t_OwnerID t = ownerID)
                 (transactions db))
         then None
         else if fits_int64 total then Some (word_of_int total) else None)"

section \<open>The transaction service (internal/services/transaction_service.go)\<close>

definition mapTransactionToResponse :: "Transaction \<Rightarrow> TransactionResponse" where
  "mapTransactionToResponse t =
     \<lparr>rs_ID = t_ID t, rs_OwnerType = t_OwnerType t, rs_OwnerID = t_OwnerID t,
      rs_Type = t_Type t, rs_Amount = t_Amount t, rs_Balance = t_Balance t,
      rs_Category = t_Category t, rs_Source = t_Source t, rs_Description = t_Description t,
      rs_GroupID = t_GroupID t, rs_PaidBy = t_PaidBy t,
      rs_PlannedExpenseID = t_PlannedExpenseID t\<rparr>"

definition app_error :: "string \<Rightarrow> string \<Rightarrow> result" where
  "app_error c m = (None, Some \<lparr>Code = c, Message = m\<rparr>)"

text \<open>The tail shared by all five operations: read the committed transaction back.\<close>

definition full_transaction :: "store \<Rightarrow> uuid \<Rightarrow> result" where
  "full_transaction db i =
     (case transactionRepo_FindByID db i of
        None \<Rightarrow> app_error ''SERVER_ERROR'' ''Failed to get transaction data''
      | Some t \<Rightarrow> (Some (mapTransactionToResponse t), None))"


subsection \<open>CreatePersonalTransaction\<close>

text \<open>The struct literals of the transaction row and of its audit entry.\<close>

definition personal_Transaction :: "uuid \<Rightarrow> CreateTransactionRequest \<Rightarrow> int64 \<Rightarrow> Transaction" where
  "personal_Transaction userID req newBalance =
     \<lparr>t_ID = uuid_Nil, t_OwnerType = ''USER'', t_OwnerID = userID,
      t_Type = rq_Type req, t_Amount = rq_Amount req, t_Balance = newBalance,
      t_Category = rq_Category req, t_Source = rq_Source req,
      t_Description = rq_Description req,
      t_Metadata = [(''personal'', JBool True)],
      t_GroupID = None, t_PaidBy = None, t_PlannedExpenseID = None,
      t_UserID = userID\<rparr>"

definition personal_AuditLog :: "uuid \<Rightarrow> CreateTransactionRequest \<Rightarrow> uuid \<Rightarrow> AuditLog" where
  "personal_AuditLog userID req transactionID =
     \<lparr>al_ID = uuid_Nil, al_Entity = ''transaction'', al_EntityID = transactionID,
      al_Action = ''create'',
      al_Changes = [(''type'', JStr (rq_Type req)), (''amount'', JInt (rq_Amount req))],
      al_PerformedBy = userID, al_GroupID = None\<rparr>"

text \<open>
  The writes of the atomic unit, from \<open>tx.Create(transaction)\<close> to the final read-back,
  once the new balance is known.
\<close>

definition CreatePersonalTransaction_write ::
  "(nat \<Rightarrow> bool) \<Rightarrow> store \<Rightarrow> store \<Rightarrow> uuid \<Rightarrow> CreateTransactionRequest \<Rightarrow> User \<Rightarrow> int64
     \<Rightarrow> store \<times> result" where
  "CreatePersonalTransaction_write fails db tx userID req user newBalance =
    (if fails 0
     then (Rollback db tx, app_error ''SERVER_ERROR'' ''Failed to create transaction'')
     else
      let (tx1, transaction) = tx_Create_Transaction tx (personal_Transaction userID req newBalance)
      in if fails 1
         then (Rollback db tx1, app_error ''SERVER_ERROR'' ''Failed to create transaction'')
         else
          let tx2 = tx_Save_User tx1 (user\<lparr>u_Balance := newBalance\<rparr>)
          in if fails 2
             then (Rollback db tx2, app_error ''SERVER_ERROR'' ''Failed to create transaction'')
             else
              let (tx3, auditLog) =
                    tx_Create_AuditLog tx2 (personal_AuditLog userID req (t_ID transaction))
              in if fails 3
                 then (Rollback db tx3, app_error ''SERVER_ERROR'' ''Failed to create transaction'')
                 else let db' = Commit db tx3
                      in (db', full_transaction db' (t_ID transaction)))"

text \<open>
  When the user is absent, \<open>FindByID\<close> returns a nil user with a nil error, the read of
  \<open>user.Balance\<close> panics, the deferred function recovers and rolls back, and the
  function returns the zero values of its results: a nil response and a nil error.
\<close>

definition CreatePersonalTransaction ::
  "(nat \<Rightarrow> bool) \<Rightarrow> store \<Rightarrow> uuid \<Rightarrow> CreateTransactionRequest \<Rightarrow> store \<times> result" where
  "CreatePersonalTransaction fails db userID req =
    (let tx = Begin db;
         (found, err) = userRepo_FindByID db userID in
     if err \<noteq> None
     then (Rollback db tx, app_error ''USER_NOT_FOUND'' ''User not found'')
     else
     case found of
       None \<Rightarrow> (Rollback db tx, (None, None))
     | Some user \<Rightarrow>
       if rq_Type req = ''CREDIT''
       then CreatePersonalTransaction_write fails db tx userID req user
              (u_Balance user + rq_Amount req)
       else if u_Balance user <s rq_Amount req
       then (Rollback db tx, app_error ''INSUFFICIENT_BALANCE'' ''Insufficient balance'')
       else CreatePersonalTransaction_write fails db tx userID req user
              (u_Balance user - rq_Amount req))"

subsection \<open>CreateGroupTransaction\<close>

text \<open>The membership check that opens every group-scoped operation.\<close>

definition not_active_member :: "store \<Rightarrow> uuid \<Rightarrow> uuid \<Rightarrow> bool" where
  "not_active_member db userID groupID =
     (case groupRepo_FindByUserAndGroup db userID groupID of
        None \<Rightarrow> True
      | Some userGroup \<Rightarrow> ug_Status userGroup \<noteq> ''active'')"

definition forbidden_member :: result where
  "forbidden_member = app_error ''FORBIDDEN'' ''You are not a member of this group''"

definition group_Transaction :: "uuid \<Rightarrow> uuid \<Rightarrow> CreateTransactionRequest \<Rightarrow> int64 \<Rightarrow> Transaction" where
  "group_Transaction userID groupID req newBalance =
     \<lparr>t_ID = uuid_Nil, t_OwnerType = ''GROUP'', t_OwnerID = groupID,
      t_Type = rq_Type req, t_Amount = rq_Amount req, t_Balance = newBalance,
      t_Category = rq_Category req, t_Source = rq_Source req,
      t_Description = rq_Description req,
      t_Metadata = [(''group'', JBool True)],
      t_GroupID = rq_GroupID req, t_PaidBy = rq_PaidBy req,
      t_PlannedExpenseID = rq_PlannedExpenseID req,
      t_UserID = userID\<rparr>"

definition group_AuditLog :: "uuid \<Rightarrow> CreateTransactionRequest \<Rightarrow> uuid \<Rightarrow> AuditLog" where
  "group_AuditLog userID req transactionID =
     \<lparr>al_ID = uuid_Nil, al_Entity = ''transaction'', al_EntityID = transactionID,
      al_Action = ''create'',
      al_Changes = [(''type'', JStr (rq_Type req)), (''amount'', JInt (rq_Amount req))],
      al_PerformedBy = userID, al_GroupID = rq_GroupID req\<rparr>"

definition CreateGroupTransaction_write ::
  "(nat \<Rightarrow> bool) \<Rightarrow> store \<Rightarrow> store \<Rightarrow> uuid \<Rightarrow> uuid \<Rightarrow> CreateTransactionRequest \<Rightarrow> Group \<Rightarrow> int64
     \<Rightarrow> store \<times> result" where
  "CreateGroupTransaction_write fails db tx userID groupID req grp newBalance =
    (if fails 0
     then (Rollback db tx, app_error ''SERVER_ERROR'' ''Failed to create transaction'')
     else
      let (tx1, transaction) =
            tx_Create_Transaction tx (group_Transaction userID groupID req newBalance)
      in if fails 1
         then (Rollback db tx1, app_error ''SERVER_ERROR'' ''Failed to create transaction'')
         else
          let tx2 = tx_Save_Group tx1 (grp\<lparr>g_Balance := newBalance\<rparr>)
          in if fails 2
             then (Rollback db tx2, app_error ''SERVER_ERROR'' ''Failed to create transaction'')
             else
              let (tx3, auditLog) =
                    tx_Create_AuditLog tx2 (group_AuditLog userID req (t_ID transaction))
              in if fails 3
                 then (Rollback db tx3, app_error ''SERVER_ERROR'' ''Failed to create transaction'')
                 else let db' = Commit db tx3
                      in (db', full_transaction db' (t_ID transaction)))"

definition CreateGroupTransaction ::
  "(nat \<Rightarrow> bool) \<Rightarrow> store \<Rightarrow> uuid \<Rightarrow> CreateTransactionRequest \<Rightarrow> store \<times> result" where
  "CreateGroupTransaction fails db userID req =
    (case rq_GroupID req of
       None \<Rightarrow> (db, app_error ''INVALID_REQUEST'' ''Group ID is required'')
     | Some groupID \<Rightarrow>
       if not_active_member db userID groupID then (db, forbidden_member)
       else
        let tx = Begin db in
        case groupRepo_FindByID db groupID of
          None \<Rightarrow> (Rollback db tx, app_error ''GROUP_NOT_FOUND'' ''Group not found'')
        | Some grp \<Rightarrow>
          if rq_Type req = ''CREDIT''
          then CreateGroupTransaction_write fails db tx userID groupID req grp
                 (g_Balance grp + rq_Amount req)
          else if g_Balance grp <s rq_Amount req
          then (Rollback db tx,
                app_error ''INSUFFICIENT_BALANCE'' ''Insufficient group balance'')
          else CreateGroupTransaction_write fails db tx userID groupID req grp
                 (g_Balance grp - rq_Amount req))"

subsection \<open>TransferToGroup\<close>

definition transfer_personal_Transaction ::
  "uuid \<Rightarrow> TransferToGroupRequest \<Rightarrow> int64 \<Rightarrow> Transaction" where
  "transfer_personal_Transaction userID req balance =
     \<lparr>t_ID = uuid_Nil, t_OwnerType = ''USER'', t_OwnerID = userID,
      t_Type = ''DEBIT'', t_Amount = tr_Amount req, t_Balance = balance,
      t_Category = ''transfer'', t_Source = ''group_transfer'',
      t_Description = tr_Description req,
      t_Metadata = [(''transfer_to_group'', JBool True), (''group_id'', JUuid (tr_GroupID req))],
      t_GroupID = Some (tr_GroupID req), t_PaidBy = None,
      t_PlannedExpenseID = None, t_UserID = userID\<rparr>"

definition transfer_group_Transaction ::
  "uuid \<Rightarrow> TransferToGroupRequest \<Rightarrow> int64 \<Rightarrow> Transaction" where
  "transfer_group_Transaction userID req balance =
     \<lparr>t_ID = uuid_Nil, t_OwnerType = ''GROUP'', t_OwnerID = tr_GroupID req,
      t_Type = ''CREDIT'', t_Amount = tr_Amount req, t_Balance = balance,
      t_Category = ''member_contribution'', t_Source = ''member'',
      t_Description = tr_Description req,
      t_Metadata = [(''from_member'', JBool True), (''member_id'', JUuid userID)],
      t_GroupID = Some (tr_GroupID req), t_PaidBy = Some userID,
      t_PlannedExpenseID = None, t_UserID = userID\<rparr>"

definition transfer_personal_AuditLog :: "uuid \<Rightarrow> TransferToGroupRequest \<Rightarrow> uuid \<Rightarrow> AuditLog" where
  "transfer_personal_AuditLog userID req transactionID =
     \<lparr>al_ID = uuid_Nil, al_Entity = ''transaction'', al_EntityID = transactionID,
      al_Action = ''transfer_to_group'',
      al_Changes = [(''amount'', JInt (tr_Amount req)), (''group_id'', JUuid (tr_GroupID req))],
      al_PerformedBy = userID, al_GroupID = None\<rparr>"

definition transfer_group_AuditLog :: "uuid \<Rightarrow> TransferToGroupRequest \<Rightarrow> uuid \<Rightarrow> AuditLog" where
  "transfer_group_AuditLog userID req transactionID =
     \<lparr>al_ID = uuid_Nil, al_Entity = ''transaction'', al_EntityID = transactionID,
      al_Action = ''receive_from_member'',
      al_Changes = [(''amount'', JInt (tr_Amount req)), (''member_id'', JUuid userID)],
      al_PerformedBy = userID, al_GroupID = Some (tr_GroupID req)\<rparr>"

text \<open>
  The writes of the transfer, in the order of the source: both transaction rows, both
  balances, both audit entries, the commit.  The response is built from the group's row.
\<close>

definition TransferToGroup_write ::
  "(nat \<Rightarrow> bool) \<Rightarrow> store \<Rightarrow> store \<Rightarrow> uuid \<Rightarrow> TransferToGroupRequest \<Rightarrow> User \<Rightarrow> Group
     \<Rightarrow> store \<times> result" where
  "TransferToGroup_write fails db tx userID req user grp =
    (let user' = user\<lparr>u_Balance := u_Balance user - tr_Amount req\<rparr> in
     if fails 0
     then (Rollback db tx, app_error ''SERVER_ERROR'' ''Failed to transfer money'')
     else
      let (tx1, personalTransaction) =
            tx_Create_Transaction tx (transfer_personal_Transaction userID req (u_Balance user'));
          grp' = grp\<lparr>g_Balance := g_Balance grp + tr_Amount req\<rparr>
      in if fails 1
         then (Rollback db tx1, app_error ''SERVER_ERROR'' ''Failed to transfer money'')
         else
          let (tx2, groupTransaction) =
                tx_Create_Transaction tx1 (transfer_group_Transaction userID req (g_Balance grp'))
          in if fails 2
             then (Rollback db tx2, app_error ''SERVER_ERROR'' ''Failed to transfer money'')
             else
              let tx3 = tx_Save_User tx2 user'
              in if fails 3
                 then (Rollback db tx3, app_error ''SERVER_ERROR'' ''Failed to transfer money'')
                 else
                  let tx4 = tx_Save_Group tx3 grp'
                  in if fails 4
                     then (Rollback db tx4, app_error ''SERVER_ERROR'' ''Failed to transfer money'')
                     else
                      let (tx5, personalAuditLog) = tx_Create_AuditLog tx4
                            (transfer_personal_AuditLog userID req (t_ID personalTransaction))
                      in if fails 5
                         then (Rollback db tx5,
                               app_error ''SERVER_ERROR'' ''Failed to transfer money'')
                         else
                          let (tx6, groupAuditLog) = tx_Create_AuditLog tx5
                                (transfer_group_AuditLog userID req (t_ID groupTransaction))
                          in if fails 6
                             then (Rollback db tx6,
                                   app_error ''SERVER_ERROR'' ''Failed to transfer money'')
                             else let db' = Commit db tx6
                                  in (db', full_transaction db' (t_ID groupTransaction)))"

text \<open>As in \<open>CreatePersonalTransaction\<close>, a nil user makes \<open>user.Balance\<close> panic.\<close>

definition TransferToGroup ::
  "(nat \<Rightarrow> bool) \<Rightarrow> store \<Rightarrow> uuid \<Rightarrow> TransferToGroupRequest \<Rightarrow> store \<times> result" where
  "TransferToGroup fails db userID req =
    (if not_active_member db userID (tr_GroupID req) then (db, forbidden_member)
     else
      let tx = Begin db;
          (found, err) = userRepo_FindByID db userID in
      if err \<noteq> None
      then (Rollback db tx, app_error ''USER_NOT_FOUND'' ''User not found'')
      else
      case found of
        None \<Rightarrow> (Rollback db tx, (None, None))
      | Some user \<Rightarrow>
        if u_Balance user <s tr_Amount req
        then (Rollback db tx,
              app_error ''INSUFFICIENT_BALANCE'' ''Insufficient personal balance'')
        else
         case groupRepo_FindByID db (tr_GroupID req) of
           None \<Rightarrow> (Rollback db tx, app_error ''GROUP_NOT_FOUND'' ''Group not found'')
         | Some grp \<Rightarrow> TransferToGroup_write fails db tx userID req user grp)"

subsection \<open>PayGroupExpense\<close>

definition expense_Transaction ::
  "uuid \<Rightarrow> uuid \<Rightarrow> PayGroupExpenseRequest \<Rightarrow> PlannedExpense \<Rightarrow> int64 \<Rightarrow> Transaction" where
  "expense_Transaction userID groupID req expense balance =
     \<lparr>t_ID = uuid_Nil, t_OwnerType = ''GROUP'', t_OwnerID = groupID,
      t_Type = ''DEBIT'', t_Amount = pr_ActualPrice req, t_Balance = balance,
      t_Category = pe_Category expense, t_Source = ''expense_payment'',
      t_Description = pr_Description req,
      t_Metadata = [(''expense_payment'', JBool True),
                    (''expense_id'', JUuid (pr_PlannedExpenseID req))],
      t_GroupID = Some groupID, t_PaidBy = Some userID,
      t_PlannedExpenseID = Some (pr_PlannedExpenseID req), t_UserID = userID\<rparr>"

definition expense_AuditLog :: "uuid \<Rightarrow> uuid \<Rightarrow> PayGroupExpenseRequest \<Rightarrow> uuid \<Rightarrow> AuditLog" where
  "expense_AuditLog userID groupID req expenseID =
     \<lparr>al_ID = uuid_Nil, al_Entity = ''planned_expense'', al_EntityID = expenseID,
      al_Action = ''mark_as_paid'',
      al_Changes = [(''actual_price'', JInt (pr_ActualPrice req)), (''paid_by'', JUuid userID)],
      al_PerformedBy = userID, al_GroupID = Some groupID\<rparr>"

text \<open>The expense as updated in memory before \<open>tx.Save(expense)\<close>; \<open>now\<close> is \<open>time.Now()\<close>.\<close>

definition bought :: "nat \<Rightarrow> uuid \<Rightarrow> PayGroupExpenseRequest \<Rightarrow> PlannedExpense \<Rightarrow> PlannedExpense" where
  "bought now userID req expense =
     expense\<lparr>pe_Status := ''bought'', pe_ActualPrice := Some (pr_ActualPrice req),
             pe_PaidBy := Some userID, pe_PaidAt := Some now\<rparr>"

definition PayGroupExpense_write ::
  "(nat \<Rightarrow> bool) \<Rightarrow> nat \<Rightarrow> store \<Rightarrow> store \<Rightarrow> uuid \<Rightarrow> uuid \<Rightarrow> PayGroupExpenseRequest
     \<Rightarrow> PlannedExpense \<Rightarrow> Group \<Rightarrow> store \<times> result" where
  "PayGroupExpense_write fails now db tx userID groupID req expense grp =
    (let grp' = grp\<lparr>g_Balance := g_Balance grp - pr_ActualPrice req\<rparr> in
     if fails 0
     then (Rollback db tx, app_error ''SERVER_ERROR'' ''Failed to pay expense'')
     else
      let (tx1, transaction) = tx_Create_Transaction tx
            (expense_Transaction userID groupID req expense (g_Balance grp'));
          expense' = bought now userID req expense
      in if fails 1
         then (Rollback db tx1, app_error ''SERVER_ERROR'' ''Failed to pay expense'')
         else
          let tx2 = tx_Save_PlannedExpense tx1 expense'
          in if fails 2
             then (Rollback db tx2, app_error ''SERVER_ERROR'' ''Failed to pay expense'')
             else
              let tx3 = tx_Save_Group tx2 grp'
              in if fails 3
                 then (Rollback db tx3, app_error ''SERVER_ERROR'' ''Failed to pay expense'')
                 else
                  let (tx4, auditLog) = tx_Create_AuditLog tx3
                        (expense_AuditLog userID groupID req (pe_ID expense'))
                  in if fails 4
                     then (Rollback db tx4, app_error ''SERVER_ERROR'' ''Failed to pay expense'')
                     else let db' = Commit db tx4
                          in (db', full_transaction db' (t_ID transaction)))"

definition PayGroupExpense ::
  "(nat \<Rightarrow> bool) \<Rightarrow> nat \<Rightarrow> store \<Rightarrow> uuid \<Rightarrow> uuid \<Rightarrow> PayGroupExpenseRequest \<Rightarrow> store \<times> result" where
  "PayGroupExpense fails now db userID groupID req =
    (if not_active_member db userID groupID then (db, forbidden_member)
     else
      case expenseRepo_FindByID db (pr_PlannedExpenseID req) of
        None \<Rightarrow> (db, app_error ''EXPENSE_NOT_FOUND'' ''Planned expense not found'')
      | Some expense \<Rightarrow>
        if pe_GroupID expense \<noteq> Some groupID
        then (db, app_error ''FORBIDDEN'' ''Expense does not belong to this group'')
        else if pe_Status expense \<noteq> ''planned''
        then (db, app_error ''INVALID_STATUS'' ''Expense is not in planned status'')
        else
         let tx = Begin db in
         case groupRepo_FindByID db groupID of
           None \<Rightarrow> (Rollback db tx, app_error ''GROUP_NOT_FOUND'' ''Group not found'')
         | Some grp \<Rightarrow>
           if g_Balance grp <s pr_ActualPrice req
           then (Rollback db tx,
                 app_error ''INSUFFICIENT_BALANCE'' ''Insufficient group balance'')
           else PayGroupExpense_write fails now db tx userID groupID req expense grp)"

subsection \<open>RecordExternalIncome\<close>

definition income_Transaction :: "uuid \<Rightarrow> uuid \<Rightarrow> int64 \<Rightarrow> string \<Rightarrow> int64 \<Rightarrow> Transaction" where
  "income_Transaction userID groupID amount source balance =
     \<lparr>t_ID = uuid_Nil, t_OwnerType = ''GROUP'', t_OwnerID = groupID,
      t_Type = ''CREDIT'', t_Amount = amount, t_Balance = balance,
      t_Category = ''external_income'', t_Source = source,
      t_Description = ''External contribution'',
      t_Metadata = [(''external_income'', JBool True), (''source'', JStr source)],
      t_GroupID = Some groupID, t_PaidBy = None, t_PlannedExpenseID = None,
      t_UserID = userID\<rparr>"

definition income_AuditLog :: "uuid \<Rightarrow> uuid \<Rightarrow> int64 \<Rightarrow> string \<Rightarrow> uuid \<Rightarrow> AuditLog" where
  "income_AuditLog userID groupID amount source transactionID =
     \<lparr>al_ID = uuid_Nil, al_Entity = ''transaction'', al_EntityID = transactionID,
      al_Action = ''record_external_income'',
      al_Changes = [(''amount'', JInt amount), (''source'', JStr source)],
      al_PerformedBy = userID, al_GroupID = Some groupID\<rparr>"

text \<open>The amount arrives as a bare \<open>int64\<close>; nothing in the function inspects it.\<close>

definition RecordExternalIncome ::
  "(nat \<Rightarrow> bool) \<Rightarrow> store \<Rightarrow> uuid \<Rightarrow> uuid \<Rightarrow> int64 \<Rightarrow> string \<Rightarrow> store \<times> result" where
  "RecordExternalIncome fails db userID groupID amount source =
    (if not_active_member db userID groupID then (db, forbidden_member)
     else
      let tx = Begin db in
      case groupRepo_FindByID db groupID of
        None \<Rightarrow> (Rollback db tx, app_error ''GROUP_NOT_FOUND'' ''Group not found'')
      | Some grp \<Rightarrow>
        let grp' = grp\<lparr>g_Balance := g_Balance grp + amount\<rparr> in
        if fails 0
        then (Rollback db tx, app_error ''SERVER_ERROR'' ''Failed to record income'')
        else
         let (tx1, transaction) = tx_Create_Transaction tx
               (income_Transaction userID groupID amount source (g_Balance grp'))
         in if fails 1
            then (Rollback db tx1, app_error ''SERVER_ERROR'' ''Failed to record income'')
            else
             let tx2 = tx_Save_Group tx1 grp'
             in if fails 2
                then (Rollback db tx2, app_error ''SERVER_ERROR'' ''Failed to record income'')
                else
                 let (tx3, auditLog) = tx_Create_AuditLog tx2
                       (income_AuditLog userID groupID amount source (t_ID transaction))
                 in if fails 3
                    then (Rollback db tx3, app_error ''SERVER_ERROR'' ''Failed to record income'')
                    else let db' = Commit db tx3
                         in (db', full_transaction db' (t_ID transaction)))"

section \<open>Specification vocabulary\<close>

text \<open>
  The row as stored by \<open>tx.Create\<close> when the literal carries no identifier: the hook
  fills in a fresh one.
\<close>

definition created :: "Transaction list \<Rightarrow> Transaction \<Rightarrow> Transaction" where
  "created ts t = t\<lparr>t_ID := uuid_New (map t_ID ts)\<rparr>"

definition logged :: "AuditLog list \<Rightarrow> AuditLog \<Rightarrow> AuditLog" where
  "logged as a = a\<lparr>al_ID := uuid_New (map al_ID as)\<rparr>"

text \<open>
  The balance-sum invariant: the stored balance of every user and of every group, read
  as a signed integer, is the signed sum of the amounts of the transactions recorded
  against that owner (CREDIT positive, otherwise negative), as the query of
  \<open>GetBalance\<close> computes it.
\<close>

definition balance_sum_invariant :: "store \<Rightarrow> bool" where
  "balance_sum_invariant db \<longleftrightarrow>
     (\<forall>u\<in>set (users db). sint (u_Balance u) = transaction_sum db ''USER'' (u_ID u)) \<and>
     (\<forall>g\<in>set (groups db). sint (g_Balance g) = transaction_sum db ''GROUP'' (g_ID g))"

text \<open>Storage behaviours: no write fails, or exactly the n-th write of the unit fails.\<close>

definition no_fault :: "nat \<Rightarrow> bool" where
  "no_fault k = False"

definition fault_at :: "nat \<Rightarrow> nat \<Rightarrow> bool" where
  "fault_at n k = (k = n)"

text \<open>
  A small database: user 1 with balance 1000, an active member of group 10 whose balance
  is 300; one planned expense (20) of that group, estimated at 200; user 2 belongs to no
  group; the user row of identifier 3 is gone while its membership row remains.
\<close>

definition demo_user :: User where
  "demo_user = \<lparr>u_ID = 1, u_Balance = 1000\<rparr>"

definition demo_group :: Group where
  "demo_group = \<lparr>g_ID = 10, g_Balance = 300\<rparr>"

definition demo_expense :: PlannedExpense where
  "demo_expense =
     \<lparr>pe_ID = 20, pe_EstimatedPrice = 200, pe_ActualPrice = None, pe_Category = ''food'',
      pe_Status = ''planned'', pe_GroupID = Some 10, pe_UserID = 1, pe_PaidBy = None,
      pe_PaidAt = None\<rparr>"

definition demo_db :: store where
  "demo_db =
     \<lparr>users = [demo_user, \<lparr>u_ID = 2, u_Balance = 0\<rparr>],
      groups = [demo_group],
      user_groups = [\<lparr>ug_UserID = 1, ug_GroupID = 10, ug_Role = ''manager'', ug_Status = ''active''\<rparr>,
                     \<lparr>ug_UserID = 3, ug_GroupID = 10, ug_Role = ''member'', ug_Status = ''active''\<rparr>],
      transactions =
        [\<lparr>t_ID = 1, t_OwnerType = ''USER'', t_OwnerID = 1, t_Type = ''CREDIT'', t_Amount = 1000,
          t_Balance = 1000, t_Category = ''income'', t_Source = ''salary'', t_Description = [],
          t_Metadata = [(''personal'', JBool True)], t_GroupID = None, t_PaidBy = None,
          t_PlannedExpenseID = None, t_UserID = 1\<rparr>,
         \<lparr>t_ID = 2, t_OwnerType = ''GROUP'', t_OwnerID = 10, t_Type = ''CREDIT'', t_Amount = 300,
          t_Balance = 300, t_Category = ''external_income'', t_Source = ''gift'',
          t_Description = ''External contribution'',
          t_Metadata = [(''external_income'', JBool True), (''source'', JStr ''gift'')],
          t_GroupID = Some 10, t_PaidBy = None, t_PlannedExpenseID = None, t_UserID = 1\<rparr>],
      planned_expenses = [demo_expense],
      audit_logs = []\<rparr>"

definition demo_request :: "string \<Rightarrow> int64 \<Rightarrow> uuid option \<Rightarrow> CreateTransactionRequest" where
  "demo_request typ amount groupID =
     \<lparr>rq_Type = typ, rq_Amount = amount, rq_Category = ''food'', rq_Source = ''cash'',
      rq_Description = [], rq_GroupID = groupID, rq_PaidBy = None, rq_PlannedExpenseID = None\<rparr>"

definition demo_transfer :: "int64 \<Rightarrow> TransferToGroupRequest" where
  "demo_transfer amount = \<lparr>tr_GroupID = 10, tr_Amount = amount, tr_Description = ''rent''\<rparr>"

definition demo_payment :: "int64 \<Rightarrow> PayGroupExpenseRequest" where
  "demo_payment price = \<lparr>pr_PlannedExpenseID = 20, pr_ActualPrice = price, pr_Description = []\<rparr>"

text \<open>
  Some write among the first n of the atomic unit fails; and the outcome of an operation
  that left no trace: the store is the one it started from and no response is returned.
\<close>

definition some_write_fails :: "(nat \<Rightarrow> bool) \<Rightarrow> nat \<Rightarrow> bool" where
  "some_write_fails fails n = list_ex fails [0..<n]"

definition rolled_back :: "store \<Rightarrow> store \<times> result \<Rightarrow> bool" where
  "rolled_back db r \<longleftrightarrow> fst r = db \<and> fst (snd r) = None"

text \<open>
  Holding an active membership: some membership row of the user in the group has status
  \<open>active\<close>.
\<close>

definition holds_active_membership :: "store \<Rightarrow> uuid \<Rightarrow> uuid \<Rightarrow> bool" where
  "holds_active_membership db userID groupID =
     list_ex (\<lambda>m. ug_UserID m = userID \<and> ug_GroupID m = groupID \<and> ug_Status m = ''active'')
       (user_groups db)"

text \<open>The balance an owner has in the store, if the owner is there.\<close>

definition user_balance :: "store \<Rightarrow> uuid \<Rightarrow> int64 option" where
  "user_balance db userID = map_option u_Balance (user_row db userID)"

definition group_balance :: "store \<Rightarrow> uuid \<Rightarrow> int64 option" where
  "group_balance db groupID = map_option g_Balance (groupRepo_FindByID db groupID)"



section \<open>Auxiliary facts\<close>

lemma userRepo_FindByID_eq [simp]: "userRepo_FindByID db i = (user_row db i, None)"
  by (simp add: userRepo_FindByID_def split: option.split)

lemma uuid_New_gt: "i \<in> set used \<Longrightarrow> i < uuid_New used"
  by (induction used) (auto simp: uuid_New_def)

lemma uuid_New_fresh: "uuid_New used \<notin> set used"
  using uuid_New_gt by blast

lemma uuid_New_not_Nil: "uuid_New used \<noteq> uuid_Nil"
  by (simp add: uuid_New_def uuid_Nil_def)

lemma find_append_fresh:
  "\<forall>x\<in>set xs. \<not> P x \<Longrightarrow> P y \<Longrightarrow> find P (xs @ [y]) = Some y"
  by (induction xs) auto



lemma created_fresh: "r \<in> set ts \<Longrightarrow> t_ID r \<noteq> t_ID (created ts t)"
  using uuid_New_gt [of "t_ID r" "map t_ID ts"] by (auto simp: created_def)

lemma full_transaction_created:
  assumes "transactions db' = ts @ [created ts t]"
  shows "full_transaction db' (t_ID (created ts t)) =
           (Some (mapTransactionToResponse (created ts t)), None)"
proof -
  have "find (\<lambda>r. t_ID r = t_ID (created ts t)) (ts @ [created ts t]) = Some (created ts t)"
    by (intro find_append_fresh) (auto simp: created_fresh)
  then show ?thesis
    by (simp add: full_transaction_def transactionRepo_FindByID_def assms)
qed

lemma tx_Create_Transaction_eq:
  "t_ID t = uuid_Nil \<Longrightarrow>
     tx_Create_Transaction tx t =
       (tx\<lparr>transactions := transactions tx @ [created (transactions tx) t]\<rparr>,
        created (transactions tx) t)"
  by (simp add: tx_Create_Transaction_def Transaction_BeforeCreate_def created_def Let_def)

lemma tx_Create_AuditLog_eq:
  "al_ID a = uuid_Nil \<Longrightarrow>
     tx_Create_AuditLog tx a =
       (tx\<lparr>audit_logs := audit_logs tx @ [logged (audit_logs tx) a]\<rparr>,
        logged (audit_logs tx) a)"
  by (simp add: tx_Create_AuditLog_def AuditLog_BeforeCreate_def logged_def Let_def)

lemma Nil_ids:
  "t_ID (personal_Transaction userID req b) = uuid_Nil"
  "t_ID (group_Transaction userID groupID req b) = uuid_Nil"
  "t_ID (transfer_personal_Transaction userID treq b) = uuid_Nil"
  "t_ID (transfer_group_Transaction userID treq b) = uuid_Nil"
  "t_ID (expense_Transaction userID groupID preq e b) = uuid_Nil"
  "t_ID (income_Transaction userID groupID amount source b) = uuid_Nil"
  "al_ID (personal_AuditLog userID req i) = uuid_Nil"
  "al_ID (group_AuditLog userID req i) = uuid_Nil"
  "al_ID (transfer_personal_AuditLog userID treq i) = uuid_Nil"
  "al_ID (transfer_group_AuditLog userID treq i) = uuid_Nil"
  "al_ID (expense_AuditLog userID groupID preq i) = uuid_Nil"
  "al_ID (income_AuditLog userID groupID amount source i) = uuid_Nil"
  by (simp_all add: personal_Transaction_def group_Transaction_def
      transfer_personal_Transaction_def transfer_group_Transaction_def
      expense_Transaction_def income_Transaction_def personal_AuditLog_def group_AuditLog_def
      transfer_personal_AuditLog_def transfer_group_AuditLog_def expense_AuditLog_def
      income_AuditLog_def)

lemmas write_simps = Let_def Rollback_def Commit_def Begin_def tx_Create_Transaction_eq
  tx_Create_AuditLog_eq Nil_ids tx_Save_User_def tx_Save_Group_def tx_Save_PlannedExpense_def
  full_transaction_created

lemma CreatePersonalTransaction_write_eq:
  "CreatePersonalTransaction_write fails db db userID req user newBalance =
    (if fails 0 \<or> fails 1 \<or> fails 2 \<or> fails 3
     then (db, app_error ''SERVER_ERROR'' ''Failed to create transaction'')
     else
       (let t = created (transactions db) (personal_Transaction userID req newBalance)
        in (db\<lparr>users := users (tx_Save_User db (user\<lparr>u_Balance := newBalance\<rparr>)),
               transactions := transactions db @ [t],
               audit_logs := audit_logs db @
                 [logged (audit_logs db) (personal_AuditLog userID req (t_ID t))]\<rparr>,
            (Some (mapTransactionToResponse t), None))))"
  unfolding CreatePersonalTransaction_write_def by (simp add: write_simps)

lemma CreateGroupTransaction_write_eq:
  "CreateGroupTransaction_write fails db db userID groupID req grp newBalance =
    (if fails 0 \<or> fails 1 \<or> fails 2 \<or> fails 3
     then (db, app_error ''SERVER_ERROR'' ''Failed to create transaction'')
     else
       (let t = created (transactions db) (group_Transaction userID groupID req newBalance)
        in (db\<lparr>groups := groups (tx_Save_Group db (grp\<lparr>g_Balance := newBalance\<rparr>)),
               transactions := transactions db @ [t],
               audit_logs := audit_logs db @
                 [logged (audit_logs db) (group_AuditLog userID req (t_ID t))]\<rparr>,
            (Some (mapTransactionToResponse t), None))))"
  unfolding CreateGroupTransaction_write_def by (simp add: write_simps)

lemma TransferToGroup_write_eq:
  "TransferToGroup_write fails db db userID req user grp =
    (if fails 0 \<or> fails 1 \<or> fails 2 \<or> fails 3 \<or> fails 4 \<or> fails 5 \<or> fails 6
     then (db, app_error ''SERVER_ERROR'' ''Failed to transfer money'')
     else
       (let pt = created (transactions db)
                   (transfer_personal_Transaction userID req (u_Balance user - tr_Amount req));
            gt = created (transactions db @ [pt])
                   (transfer_group_Transaction userID req (g_Balance grp + tr_Amount req));
            pa = logged (audit_logs db) (transfer_personal_AuditLog userID req (t_ID pt));
            ga = logged (audit_logs db @ [pa]) (transfer_group_AuditLog userID req (t_ID gt))
        in (db\<lparr>users := users (tx_Save_User db (user\<lparr>u_Balance := u_Balance user - tr_Amount req\<rparr>)),
               groups := groups (tx_Save_Group db (grp\<lparr>g_Balance := g_Balance grp + tr_Amount req\<rparr>)),
               transactions := transactions db @ [pt, gt],
               audit_logs := audit_logs db @ [pa, ga]\<rparr>,
            (Some (mapTransactionToResponse gt), None))))"
  unfolding TransferToGroup_write_def by (simp add: write_simps)

lemma PayGroupExpense_write_eq:
  "PayGroupExpense_write fails now db db userID groupID req expense grp =
    (if fails 0 \<or> fails 1 \<or> fails 2 \<or> fails 3 \<or> fails 4
     then (db, app_error ''SERVER_ERROR'' ''Failed to pay expense'')
     else
       (let t = created (transactions db)
                  (expense_Transaction userID groupID req expense (g_Balance grp - pr_ActualPrice req))
        in (db\<lparr>groups := groups (tx_Save_Group db (grp\<lparr>g_Balance := g_Balance grp - pr_ActualPrice req\<rparr>)),
               transactions := transactions db @ [t],
               planned_expenses := planned_expenses (tx_Save_PlannedExpense db (bought now userID req expense)),
               audit_logs := audit_logs db @
                 [logged (audit_logs db) (expense_AuditLog userID groupID req (pe_ID expense))]\<rparr>,
            (Some (mapTransactionToResponse t), None))))"
  unfolding PayGroupExpense_write_def by (simp add: write_simps bought_def)


lemma RecordExternalIncome_write_eq:
  "groupRepo_FindByID db groupID = Some grp \<Longrightarrow> \<not> not_active_member db userID groupID \<Longrightarrow>
   RecordExternalIncome fails db userID groupID amount source =
    (if fails 0 \<or> fails 1 \<or> fails 2 \<or> fails 3
     then (db, app_error ''SERVER_ERROR'' ''Failed to record income'')
     else
       (let t = created (transactions db)
                  (income_Transaction userID groupID amount source (g_Balance grp + amount))
        in (db\<lparr>groups := groups (tx_Save_Group db (grp\<lparr>g_Balance := g_Balance grp + amount\<rparr>)),
               transactions := transactions db @ [t],
               audit_logs := audit_logs db @
                 [logged (audit_logs db) (income_AuditLog userID groupID amount source (t_ID t))]\<rparr>,
            (Some (mapTransactionToResponse t), None))))"
  unfolding RecordExternalIncome_def by (simp add: write_simps)




lemma created_fields [simp]:
  "t_OwnerType (created ts t) = t_OwnerType t"
  "t_OwnerID (created ts t) = t_OwnerID t"
  "t_Type (created ts t) = t_Type t"
  "t_Amount (created ts t) = t_Amount t"
  "t_Balance (created ts t) = t_Balance t"
  "t_GroupID (created ts t) = t_GroupID t"
  "t_PaidBy (created ts t) = t_PaidBy t"
  "t_PlannedExpenseID (created ts t) = t_PlannedExpenseID t"
  "t_UserID (created ts t) = t_UserID t"
  "signed_amount (created ts t) = signed_amount t"
  by (simp_all add: created_def signed_amount_def)

lemma save_user_found:
  assumes "find (\<lambda>r. u_ID r = i) (users tx) = Some user"
  shows "users (tx_Save_User tx (user\<lparr>u_Balance := b\<rparr>)) =
           map (\<lambda>r. if u_ID r = i then user\<lparr>u_Balance := b\<rparr> else r) (users tx)"
proof -
  from assms have "u_ID user = i" and "user \<in> set (users tx)"
    by (auto simp: find_Some_iff)
  then show ?thesis
    by (auto simp: tx_Save_User_def list_ex_iff)
qed

lemma save_group_found:
  assumes "find (\<lambda>r. g_ID r = i) (groups tx) = Some grp"
  shows "groups (tx_Save_Group tx (grp\<lparr>g_Balance := b\<rparr>)) =
           map (\<lambda>r. if g_ID r = i then grp\<lparr>g_Balance := b\<rparr> else r) (groups tx)"
proof -
  from assms have "g_ID grp = i" and "grp \<in> set (groups tx)"
    by (auto simp: find_Some_iff)
  then show ?thesis
    by (auto simp: tx_Save_Group_def list_ex_iff)
qed



lemma signed_amounts [simp]:
  "signed_amount (personal_Transaction userID req b) =
     (if rq_Type req = ''CREDIT'' then sint (rq_Amount req) else - sint (rq_Amount req))"
  "signed_amount (group_Transaction userID groupID req b) =
     (if rq_Type req = ''CREDIT'' then sint (rq_Amount req) else - sint (rq_Amount req))"
  "signed_amount (transfer_personal_Transaction userID treq b) = - sint (tr_Amount treq)"
  "signed_amount (transfer_group_Transaction userID treq b) = sint (tr_Amount treq)"
  "signed_amount (expense_Transaction userID groupID preq e b) = - sint (pr_ActualPrice preq)"
  "signed_amount (income_Transaction userID groupID amount source b) = sint amount"
  by (simp_all add: signed_amount_def personal_Transaction_def group_Transaction_def
      transfer_personal_Transaction_def transfer_group_Transaction_def
      expense_Transaction_def income_Transaction_def)

lemma owners [simp]:
  "t_OwnerType (personal_Transaction userID req b) = ''USER''"
  "t_OwnerID (personal_Transaction userID req b) = userID"
  "t_OwnerType (group_Transaction userID groupID req b) = ''GROUP''"
  "t_OwnerID (group_Transaction userID groupID req b) = groupID"
  "t_OwnerType (transfer_personal_Transaction userID treq b) = ''USER''"
  "t_OwnerID (transfer_personal_Transaction userID treq b) = userID"
  "t_OwnerType (transfer_group_Transaction userID treq b) = ''GROUP''"
  "t_OwnerID (transfer_group_Transaction userID treq b) = tr_GroupID treq"
  "t_OwnerType (expense_Transaction userID groupID preq e b) = ''GROUP''"
  "t_OwnerID (expense_Transaction userID groupID preq e b) = groupID"
  "t_OwnerType (income_Transaction userID groupID amount source b) = ''GROUP''"
  "t_OwnerID (income_Transaction userID groupID amount source b) = groupID"
  by (simp_all add: personal_Transaction_def group_Transaction_def
      transfer_personal_Transaction_def transfer_group_Transaction_def
      expense_Transaction_def income_Transaction_def)

lemma debit_nonneg:
  fixes bal amt :: int64
  assumes "\<not> bal <s amt" and "0 \<le>s amt"
  shows "0 \<le>s bal - amt"
proof -
  have a: "0 \<le> sint amt" and b: "sint amt \<le> sint bal"
    using assms by (simp_all add: word_sle_eq word_sless_alt)
  have "sint bal < 2 ^ 63" using sint_lt [of bal] by simp
  with a b have "- (2 ^ 63) \<le> sint bal - sint amt" "sint bal - sint amt < 2 ^ 63"
    by simp_all
  then have "sint (bal - amt) = sint bal - sint amt"
    by (simp add: sint_word_ariths signed_take_bit_int_eq_self)
  with b show ?thesis by (simp add: word_sle_eq)
qed

lemma some_write_fails_simps:
  "some_write_fails fails 4 \<longleftrightarrow> fails 0 \<or> fails 1 \<or> fails 2 \<or> fails 3"
  "some_write_fails fails 5 \<longleftrightarrow> fails 0 \<or> fails 1 \<or> fails 2 \<or> fails 3 \<or> fails 4"
  "some_write_fails fails 7 \<longleftrightarrow>
     fails 0 \<or> fails 1 \<or> fails 2 \<or> fails 3 \<or> fails 4 \<or> fails 5 \<or> fails 6"
  by (auto simp: some_write_fails_def list_ex_iff less_Suc_eq numeral_eq_Suc)

lemma app_error_no_response [simp]: "fst (app_error c m) = None"
  by (simp add: app_error_def)

lemma find_map_replace:
  "find P xs = Some x \<Longrightarrow> P y \<Longrightarrow> find P (map (\<lambda>r. if P r then y else r) xs) = Some y"
  by (induction xs) (auto split: if_splits)

lemma user_balance_saved:
  assumes "user_row db userID = Some user"
    and "users db' = users (tx_Save_User db (user\<lparr>u_Balance := b\<rparr>))"
  shows "user_balance db' userID = Some b"
proof -
  from assms(1) have f: "find (\<lambda>r. u_ID r = userID) (users db) = Some user"
    by (simp add: user_row_def)
  then have "u_ID user = userID" by (auto simp: find_Some_iff)
  then have "find (\<lambda>r. u_ID r = userID)
      (map (\<lambda>r. if u_ID r = userID then user\<lparr>u_Balance := b\<rparr> else r) (users db)) =
      Some (user\<lparr>u_Balance := b\<rparr>)"
    using find_map_replace [OF f, of "user\<lparr>u_Balance := b\<rparr>"] by simp
  then show ?thesis
    by (simp add: user_balance_def user_row_def assms(2) save_user_found [OF f])
qed

lemma group_balance_saved:
  assumes "groupRepo_FindByID db groupID = Some grp"
    and "groups db' = groups (tx_Save_Group db (grp\<lparr>g_Balance := b\<rparr>))"
  shows "group_balance db' groupID = Some b"
proof -
  from assms(1) have f: "find (\<lambda>r. g_ID r = groupID) (groups db) = Some grp"
    by (simp add: groupRepo_FindByID_def)
  then have "g_ID grp = groupID" by (auto simp: find_Some_iff)
  then have "find (\<lambda>r. g_ID r = groupID)
      (map (\<lambda>r. if g_ID r = groupID then grp\<lparr>g_Balance := b\<rparr> else r) (groups db)) =
      Some (grp\<lparr>g_Balance := b\<rparr>)"
    using find_map_replace [OF f, of "grp\<lparr>g_Balance := b\<rparr>"] by simp
  then show ?thesis
    by (simp add: group_balance_def groupRepo_FindByID_def assms(2) save_group_found [OF f])
qed



text \<open>How an operation ends once its checks have passed and no write fails.\<close>

lemma personal_success:
  assumes "user_row db userID = Some user" and "\<not> some_write_fails fails 4"
    and "rq_Type req = ''CREDIT'' \<and> nb = u_Balance user + rq_Amount req \<or>
         rq_Type req \<noteq> ''CREDIT'' \<and> \<not> u_Balance user <s rq_Amount req \<and>
           nb = u_Balance user - rq_Amount req"
  shows "CreatePersonalTransaction fails db userID req =
    (db\<lparr>users := users (tx_Save_User db (user\<lparr>u_Balance := nb\<rparr>)),
        transactions := transactions db @
          [created (transactions db) (personal_Transaction userID req nb)],
        audit_logs := audit_logs db @
          [logged (audit_logs db) (personal_AuditLog userID req
             (t_ID (created (transactions db) (personal_Transaction userID req nb))))]\<rparr>,
     (Some (mapTransactionToResponse
        (created (transactions db) (personal_Transaction userID req nb))), None))"
  using assms
  by (auto simp: CreatePersonalTransaction_def CreatePersonalTransaction_write_eq
      some_write_fails_simps Let_def Begin_def)

lemma group_success:
  assumes "rq_GroupID req = Some groupID" and "\<not> not_active_member db userID groupID"
    and "groupRepo_FindByID db groupID = Some grp" and "\<not> some_write_fails fails 4"
    and "rq_Type req = ''CREDIT'' \<and> nb = g_Balance grp + rq_Amount req \<or>
         rq_Type req \<noteq> ''CREDIT'' \<and> \<not> g_Balance grp <s rq_Amount req \<and>
           nb = g_Balance grp - rq_Amount req"
  shows "CreateGroupTransaction fails db userID req =
    (db\<lparr>groups := groups (tx_Save_Group db (grp\<lparr>g_Balance := nb\<rparr>)),
        transactions := transactions db @
          [created (transactions db) (group_Transaction userID groupID req nb)],
        audit_logs := audit_logs db @
          [logged (audit_logs db) (group_AuditLog userID req
             (t_ID (created (transactions db) (group_Transaction userID groupID req nb))))]\<rparr>,
     (Some (mapTransactionToResponse
        (created (transactions db) (group_Transaction userID groupID req nb))), None))"
  using assms
  by (auto simp: CreateGroupTransaction_def CreateGroupTransaction_write_eq
      some_write_fails_simps Let_def Begin_def)

lemma transfer_success:
  assumes "\<not> not_active_member db userID (tr_GroupID req)"
    and "user_row db userID = Some user"
    and "groupRepo_FindByID db (tr_GroupID req) = Some grp"
    and "\<not> u_Balance user <s tr_Amount req" and "\<not> some_write_fails fails 7"
  shows "TransferToGroup fails db userID req =
    (let pt = created (transactions db)
                (transfer_personal_Transaction userID req (u_Balance user - tr_Amount req));
         gt = created (transactions db @ [pt])
                (transfer_group_Transaction userID req (g_Balance grp + tr_Amount req));
         pa = logged (audit_logs db) (transfer_personal_AuditLog userID req (t_ID pt));
         ga = logged (audit_logs db @ [pa]) (transfer_group_AuditLog userID req (t_ID gt))
     in (db\<lparr>users := users (tx_Save_User db (user\<lparr>u_Balance := u_Balance user - tr_Amount req\<rparr>)),
            groups := groups (tx_Save_Group db (grp\<lparr>g_Balance := g_Balance grp + tr_Amount req\<rparr>)),
            transactions := transactions db @ [pt, gt],
            audit_logs := audit_logs db @ [pa, ga]\<rparr>,
         (Some (mapTransactionToResponse gt), None)))"
  using assms
  by (simp add: TransferToGroup_def TransferToGroup_write_eq
      some_write_fails_simps Let_def Begin_def)

lemma pay_success:
  assumes "\<not> not_active_member db userID groupID"
    and "expenseRepo_FindByID db (pr_PlannedExpenseID req) = Some expense"
    and "pe_GroupID expense = Some groupID" and "pe_Status expense = ''planned''"
    and "groupRepo_FindByID db groupID = Some grp"
    and "\<not> g_Balance grp <s pr_ActualPrice req" and "\<not> some_write_fails fails 5"
  shows "PayGroupExpense fails now db userID groupID req =
    (let t = created (transactions db)
               (expense_Transaction userID groupID req expense (g_Balance grp - pr_ActualPrice req))
     in (db\<lparr>groups := groups (tx_Save_Group db (grp\<lparr>g_Balance := g_Balance grp - pr_ActualPrice req\<rparr>)),
            transactions := transactions db @ [t],
            planned_expenses :=
              planned_expenses (tx_Save_PlannedExpense db (bought now userID req expense)),
            audit_logs := audit_logs db @
              [logged (audit_logs db) (expense_AuditLog userID groupID req (pe_ID expense))]\<rparr>,
         (Some (mapTransactionToResponse t), None)))"
  using assms
  by (simp add: PayGroupExpense_def PayGroupExpense_write_eq
      some_write_fails_simps Let_def Begin_def)

lemma income_success:
  assumes "\<not> not_active_member db userID groupID"
    and "groupRepo_FindByID db groupID = Some grp" and "\<not> some_write_fails fails 4"
  shows "RecordExternalIncome fails db userID groupID amount source =
    (let t = created (transactions db)
               (income_Transaction userID groupID amount source (g_Balance grp + amount))
     in (db\<lparr>groups := groups (tx_Save_Group db (grp\<lparr>g_Balance := g_Balance grp + amount\<rparr>)),
            transactions := transactions db @ [t],
            audit_logs := audit_logs db @
              [logged (audit_logs db) (income_AuditLog userID groupID amount source (t_ID t))]\<rparr>,
         (Some (mapTransactionToResponse t), None)))"
  using assms
  by (simp add: RecordExternalIncome_write_eq some_write_fails_simps)

lemmas demo_defs = demo_db_def demo_user_def demo_group_def demo_expense_def demo_request_def
  demo_transfer_def demo_payment_def

lemma demo_lookups:
  "user_row demo_db 1 = Some demo_user"
  "groupRepo_FindByID demo_db 10 = Some demo_group"
  "expenseRepo_FindByID demo_db 20 = Some demo_expense"
  "\<not> not_active_member demo_db 1 10"
  by (simp_all add: demo_defs user_row_def groupRepo_FindByID_def
      expenseRepo_FindByID_def not_active_member_def groupRepo_FindByUserAndGroup_def)

lemma response_fields [simp]:
  "rs_ID (mapTransactionToResponse t) = t_ID t"
  "rs_Balance (mapTransactionToResponse t) = t_Balance t"
  "rs_Type (mapTransactionToResponse t) = t_Type t"
  "rs_OwnerType (mapTransactionToResponse t) = t_OwnerType t"
  "rs_OwnerID (mapTransactionToResponse t) = t_OwnerID t"
  "rs_Amount (mapTransactionToResponse t) = t_Amount t"
  by (simp_all add: mapTransactionToResponse_def)

lemma literal_balances [simp]:
  "t_Balance (personal_Transaction userID req b) = b"
  "t_Balance (group_Transaction userID groupID req b) = b"
  "t_Balance (transfer_personal_Transaction userID treq b) = b"
  "t_Balance (transfer_group_Transaction userID treq b) = b"
  "t_Balance (expense_Transaction userID groupID preq e b) = b"
  "t_Balance (income_Transaction userID groupID amount source b) = b"
  by (simp_all add: personal_Transaction_def group_Transaction_def
      transfer_personal_Transaction_def transfer_group_Transaction_def
      expense_Transaction_def income_Transaction_def)

lemma no_fault_ok [simp]: "\<not> some_write_fails no_fault n"
  by (simp add: some_write_fails_def no_fault_def list_ex_iff)

lemmas eval_defs = created_def logged_def uuid_New_def uuid_Nil_def mapTransactionToResponse_def
  personal_Transaction_def group_Transaction_def transfer_personal_Transaction_def
  transfer_group_Transaction_def expense_Transaction_def income_Transaction_def
  personal_AuditLog_def group_AuditLog_def transfer_personal_AuditLog_def
  transfer_group_AuditLog_def expense_AuditLog_def income_AuditLog_def bought_def
  tx_Save_User_def tx_Save_Group_def tx_Save_PlannedExpense_def






section \<open>The balance-sum invariant\<close>


















text \<open>
  Under the invariant \<open>GetBalance\<close> returns the stored balance of a user, unless a row of
  that user makes the query itself fail.
\<close>

lemma GetBalance_agrees:
  assumes "balance_sum_invariant db" and "u \<in> set (users db)"
    and "\<not> list_ex negation_fails
           (filter (\<lambda>t. t_OwnerType t = ''USER'' \<and> t_OwnerID t = u_ID u) (transactions db))"
  shows "GetBalance db ''USER'' (u_ID u) = Some (u_Balance u)"
proof -
  from assms(1,2) have s: "transaction_sum db ''USER'' (u_ID u) = sint (u_Balance u)"
    by (simp add: balance_sum_invariant_def)
  have "fits_int64 (sint (u_Balance u))"
    using sint_ge [of "u_Balance u"] sint_lt [of "u_Balance u"] by (simp add: fits_int64_def)
  with assms(3) s show ?thesis
    by (simp add: GetBalance_def Let_def)
qed

section \<open>Atomicity\<close>

lemma outcome_CreatePersonalTransaction:
  "rolled_back db (CreatePersonalTransaction fails db userID req) \<or>
   \<not> some_write_fails fails 4 \<and>
     (\<exists>resp. snd (CreatePersonalTransaction fails db userID req) = (Some resp, None))"
  by (simp add: CreatePersonalTransaction_def CreatePersonalTransaction_write_eq
      some_write_fails_simps rolled_back_def Let_def Rollback_def Begin_def
      split: option.split)

lemma outcome_CreateGroupTransaction:
  "rolled_back db (CreateGroupTransaction fails db userID req) \<or>
   \<not> some_write_fails fails 4 \<and>
     (\<exists>resp. snd (CreateGroupTransaction fails db userID req) = (Some resp, None))"
  by (simp add: CreateGroupTransaction_def CreateGroupTransaction_write_eq forbidden_member_def
      some_write_fails_simps rolled_back_def Let_def Rollback_def Begin_def
      split: option.split)

lemma outcome_TransferToGroup:
  "rolled_back db (TransferToGroup fails db userID req) \<or>
   \<not> some_write_fails fails 7 \<and>
     (\<exists>resp. snd (TransferToGroup fails db userID req) = (Some resp, None))"
  by (simp add: TransferToGroup_def TransferToGroup_write_eq forbidden_member_def
      some_write_fails_simps rolled_back_def Let_def Rollback_def Begin_def
      split: option.split)

lemma outcome_PayGroupExpense:
  "rolled_back db (PayGroupExpense fails now db userID groupID req) \<or>
   \<not> some_write_fails fails 5 \<and>
     (\<exists>resp. snd (PayGroupExpense fails now db userID groupID req) = (Some resp, None))"
  by (simp add: PayGroupExpense_def PayGroupExpense_write_eq forbidden_member_def
      some_write_fails_simps rolled_back_def Let_def Rollback_def Begin_def
      split: option.split)

lemma outcome_RecordExternalIncome:
  "rolled_back db (RecordExternalIncome fails db userID groupID amount source) \<or>
   \<not> some_write_fails fails 4 \<and>
     (\<exists>resp. snd (RecordExternalIncome fails db userID groupID amount source) = (Some resp, None))"
proof (cases "not_active_member db userID groupID")
  case True
  then show ?thesis
    by (simp add: RecordExternalIncome_def forbidden_member_def rolled_back_def)
next
  case member: False
  show ?thesis
  proof (cases "groupRepo_FindByID db groupID")
    case None
    then show ?thesis using member
      by (simp add: RecordExternalIncome_def rolled_back_def Let_def Rollback_def)
  next
    case (Some grp)
    show ?thesis
      by (simp add: RecordExternalIncome_write_eq [OF Some member] some_write_fails_simps
          rolled_back_def Let_def)
  qed
qed

text \<open>
  Claim C3.  Every ledger operation is all-or-nothing.  If any write of its atomic unit
  fails (the creation of a transaction row, the saving of a balance or of the expense, the
  creation of an audit entry, the commit), the operation is rolled back: the store is
  exactly the one the operation started from and no response is returned.  In particular
  a failed audit write cannot leave the balance mutation and the transaction record
  committed.
\<close>

theorem ledger_operations_all_or_nothing:
  "(some_write_fails fails 4
      \<longrightarrow> rolled_back db (CreatePersonalTransaction fails db userID req)) \<and>
   (some_write_fails fails 4
      \<longrightarrow> rolled_back db (CreateGroupTransaction fails db userID req)) \<and>
   (some_write_fails fails 7
      \<longrightarrow> rolled_back db (TransferToGroup fails db userID treq)) \<and>
   (some_write_fails fails 5
      \<longrightarrow> rolled_back db (PayGroupExpense fails now db userID groupID preq)) \<and>
   (some_write_fails fails 4
      \<longrightarrow> rolled_back db (RecordExternalIncome fails db userID groupID amount source))"
  using outcome_CreatePersonalTransaction [of db fails userID req]
    outcome_CreateGroupTransaction [of db fails userID req]
    outcome_TransferToGroup [of db fails userID treq]
    outcome_PayGroupExpense [of db fails now userID groupID preq]
    outcome_RecordExternalIncome [of db fails userID groupID amount source]
  by auto

theorem ledger_operations_all_or_nothing_witness:
  "some_write_fails (fault_at 2) 4 \<and> some_write_fails (fault_at 5) 7 \<and>
   some_write_fails (fault_at 3) 5 \<and>
   rolled_back demo_db
     (CreatePersonalTransaction (fault_at 2) demo_db 1 (demo_request ''CREDIT'' 50 None)) \<and>
   rolled_back demo_db
     (CreateGroupTransaction (fault_at 2) demo_db 1 (demo_request ''DEBIT'' 50 (Some 10))) \<and>
   rolled_back demo_db (TransferToGroup (fault_at 5) demo_db 1 (demo_transfer 500)) \<and>
   rolled_back demo_db (PayGroupExpense (fault_at 3) 7 demo_db 1 10 (demo_payment 250)) \<and>
   rolled_back demo_db (RecordExternalIncome (fault_at 2) demo_db 1 10 25 ''gift'')"
  using ledger_operations_all_or_nothing [of "fault_at 2" demo_db 1
      "demo_request ''CREDIT'' 50 None" "demo_transfer 500" 7 10 "demo_payment 250" 25 "''gift''"]
    ledger_operations_all_or_nothing [of "fault_at 2" demo_db 1
      "demo_request ''DEBIT'' 50 (Some 10)" "demo_transfer 500" 7 10 "demo_payment 250" 25 "''gift''"]
    ledger_operations_all_or_nothing [of "fault_at 5" demo_db 1
      "demo_request ''CREDIT'' 50 None" "demo_transfer 500" 7 10 "demo_payment 250" 25 "''gift''"]
    ledger_operations_all_or_nothing [of "fault_at 3" demo_db 1
      "demo_request ''CREDIT'' 50 None" "demo_transfer 500" 7 10 "demo_payment 250" 25 "''gift''"]
  by (simp add: some_write_fails_simps fault_at_def)

section \<open>The membership gate\<close>

lemma no_active_row:
  "\<not> holds_active_membership db userID groupID \<Longrightarrow> not_active_member db userID groupID"
  by (auto simp: holds_active_membership_def not_active_member_def
      groupRepo_FindByUserAndGroup_def list_ex_iff find_Some_iff split: option.split)

text \<open>
  Claim C7.  When the acting user holds no active membership in the target group, each of
  the four group-scoped operations returns the error FORBIDDEN and leaves the store as it
  was.  The result does not depend on the storage behaviour \<open>fails\<close>: the check is made
  before the database transaction is begun.  (For \<open>CreateGroupTransaction\<close> the target
  group is the one named in the request.)
\<close>

theorem non_member_forbidden:
  assumes "\<not> holds_active_membership db userID groupID"
  shows "(rq_GroupID req = Some groupID \<longrightarrow>
            CreateGroupTransaction fails db userID req =
              (db, app_error ''FORBIDDEN'' ''You are not a member of this group'')) \<and>
         (tr_GroupID treq = groupID \<longrightarrow>
            TransferToGroup fails db userID treq =
              (db, app_error ''FORBIDDEN'' ''You are not a member of this group'')) \<and>
         PayGroupExpense fails now db userID groupID preq =
              (db, app_error ''FORBIDDEN'' ''You are not a member of this group'') \<and>
         RecordExternalIncome fails db userID groupID amount source =
              (db, app_error ''FORBIDDEN'' ''You are not a member of this group'')"
  using no_active_row [OF assms]
  by (auto simp: CreateGroupTransaction_def TransferToGroup_def PayGroupExpense_def
      RecordExternalIncome_def forbidden_member_def)

theorem non_member_forbidden_witness:
  "\<not> holds_active_membership demo_db 2 10 \<and>
   CreateGroupTransaction no_fault demo_db 2 (demo_request ''CREDIT'' 50 (Some 10)) =
     (demo_db, app_error ''FORBIDDEN'' ''You are not a member of this group'') \<and>
   TransferToGroup no_fault demo_db 2 (demo_transfer 0) =
     (demo_db, app_error ''FORBIDDEN'' ''You are not a member of this group'') \<and>
   PayGroupExpense no_fault 7 demo_db 2 10 (demo_payment 250) =
     (demo_db, app_error ''FORBIDDEN'' ''You are not a member of this group'') \<and>
   RecordExternalIncome no_fault demo_db 2 10 25 ''gift'' =
     (demo_db, app_error ''FORBIDDEN'' ''You are not a member of this group'')"
proof -
  have h: "\<not> holds_active_membership demo_db 2 10"
    by (simp add: holds_active_membership_def demo_db_def demo_user_def demo_group_def demo_expense_def)
  show ?thesis
    using h non_member_forbidden [OF h, where req = "demo_request ''CREDIT'' 50 (Some 10)"
        and treq = "demo_transfer 0" and fails = no_fault and now = 7
        and preq = "demo_payment 250" and amount = 25 and source = "''gift''"]
    by (simp add: demo_request_def demo_transfer_def)
qed

section \<open>A user that is not in the user table\<close>

lemma absent_user: "userID \<notin> u_ID ` set (users db) \<Longrightarrow> user_row db userID = None"
  by (auto simp: user_row_def find_None_iff)

text \<open>
  Claim C9, evaluated on the code.  The user 99 is not in the user table.  The operation
  does roll back, but it reports nothing: the response and the error are both nil, where
  the claim has the error NotFound.  The branch returning USER_NOT_FOUND is never taken
  for a missing user, since \<open>FindByID\<close> returns a nil error for it.
\<close>

theorem absent_user_personal_demo:
  "userRepo_FindByID demo_db 99 = (None, None) \<and>
   CreatePersonalTransaction no_fault demo_db 99 (demo_request ''DEBIT'' 5 None) =
     (demo_db, (None, None))"
  by (simp add: CreatePersonalTransaction_def user_row_def demo_db_def demo_user_def demo_group_def demo_expense_def Let_def Rollback_def)

text \<open>
  Claim C10, as amended.  For a user id that is not in the user table,
  \<open>CreatePersonalTransaction\<close> always returns a nil response together with a nil error and
  leaves the store unchanged.  \<open>TransferToGroup\<close> does so exactly when the membership
  check before the transaction passes (a membership row of the missing user still has
  status active); otherwise it returns the error FORBIDDEN.
\<close>

theorem absent_user_nil_nil:
  assumes "userID \<notin> u_ID ` set (users db)"
  shows "CreatePersonalTransaction fails db userID req = (db, (None, None)) \<and>
         (\<not> not_active_member db userID (tr_GroupID treq) \<longrightarrow>
            TransferToGroup fails db userID treq = (db, (None, None))) \<and>
         (not_active_member db userID (tr_GroupID treq) \<longrightarrow>
            TransferToGroup fails db userID treq =
              (db, app_error ''FORBIDDEN'' ''You are not a member of this group''))"
  using absent_user [OF assms]
  by (simp add: CreatePersonalTransaction_def TransferToGroup_def forbidden_member_def
      Let_def Rollback_def)

theorem absent_user_nil_nil_witness:
  "3 \<notin> u_ID ` set (users demo_db) \<and> 99 \<notin> u_ID ` set (users demo_db) \<and>
   \<not> not_active_member demo_db 3 (tr_GroupID (demo_transfer 500)) \<and>
   not_active_member demo_db 99 (tr_GroupID (demo_transfer 500)) \<and>
   CreatePersonalTransaction no_fault demo_db 3 (demo_request ''DEBIT'' 5 None) =
     (demo_db, (None, None)) \<and>
   TransferToGroup no_fault demo_db 3 (demo_transfer 500) = (demo_db, (None, None)) \<and>
   TransferToGroup no_fault demo_db 99 (demo_transfer 500) =
     (demo_db, app_error ''FORBIDDEN'' ''You are not a member of this group'')"
  using absent_user_nil_nil [where userID = 3 and db = demo_db and fails = no_fault
      and req = "demo_request ''DEBIT'' 5 None" and treq = "demo_transfer 500"]
    absent_user_nil_nil [where userID = 99 and db = demo_db and fails = no_fault
      and req = "demo_request ''DEBIT'' 5 None" and treq = "demo_transfer 500"]
  by (simp add: demo_db_def demo_user_def demo_group_def demo_expense_def not_active_member_def groupRepo_FindByUserAndGroup_def
      demo_transfer_def)

text \<open>
  Claim C10 as stated, refuted: the user 99 is in no table, and \<open>TransferToGroup\<close> called
  for it returns an error with the code FORBIDDEN.
\<close>

theorem absent_non_member_forbidden:
  "99 \<notin> u_ID ` set (users demo_db) \<and>
   TransferToGroup no_fault demo_db 99 (demo_transfer 500) =
     (demo_db, (None, Some \<lparr>Code = ''FORBIDDEN'', Message = ''You are not a member of this group''\<rparr>))"
  by (simp add: TransferToGroup_def demo_db_def demo_user_def demo_group_def demo_expense_def not_active_member_def groupRepo_FindByUserAndGroup_def
     demo_transfer_def forbidden_member_def app_error_def)

section \<open>Debits and the balance check\<close>

lemma debit_personal:
  assumes u: "user_row db userID = Some user" and d: "rq_Type req \<noteq> ''CREDIT''"
  shows "(u_Balance user <s rq_Amount req \<longrightarrow>
            CreatePersonalTransaction fails db userID req =
              (db, app_error ''INSUFFICIENT_BALANCE'' ''Insufficient balance'')) \<and>
         (\<not> u_Balance user <s rq_Amount req \<and> \<not> some_write_fails fails 4 \<longrightarrow>
            fst (snd (CreatePersonalTransaction fails db userID req)) \<noteq> None \<and>
            user_balance (fst (CreatePersonalTransaction fails db userID req)) userID =
              Some (u_Balance user - rq_Amount req))"
proof (intro conjI impI)
  assume "u_Balance user <s rq_Amount req"
  then show "CreatePersonalTransaction fails db userID req =
      (db, app_error ''INSUFFICIENT_BALANCE'' ''Insufficient balance'')"
    using u d by (simp add: CreatePersonalTransaction_def Let_def Rollback_def)
next
  assume a: "\<not> u_Balance user <s rq_Amount req \<and> \<not> some_write_fails fails 4"
  note s = personal_success [OF u, of fails req "u_Balance user - rq_Amount req"]
  from a d show "fst (snd (CreatePersonalTransaction fails db userID req)) \<noteq> None"
    by (simp add: s)
  from a d show "user_balance (fst (CreatePersonalTransaction fails db userID req)) userID =
      Some (u_Balance user - rq_Amount req)"
    by (simp add: s user_balance_saved [OF u])
qed

lemma debit_group:
  assumes r: "rq_GroupID req = Some groupID" and m: "\<not> not_active_member db userID groupID"
    and g: "groupRepo_FindByID db groupID = Some grp" and d: "rq_Type req \<noteq> ''CREDIT''"
  shows "(g_Balance grp <s rq_Amount req \<longrightarrow>
            CreateGroupTransaction fails db userID req =
              (db, app_error ''INSUFFICIENT_BALANCE'' ''Insufficient group balance'')) \<and>
         (\<not> g_Balance grp <s rq_Amount req \<and> \<not> some_write_fails fails 4 \<longrightarrow>
            fst (snd (CreateGroupTransaction fails db userID req)) \<noteq> None \<and>
            group_balance (fst (CreateGroupTransaction fails db userID req)) groupID =
              Some (g_Balance grp - rq_Amount req))"
proof (intro conjI impI)
  assume "g_Balance grp <s rq_Amount req"
  then show "CreateGroupTransaction fails db userID req =
      (db, app_error ''INSUFFICIENT_BALANCE'' ''Insufficient group balance'')"
    using r m g d by (simp add: CreateGroupTransaction_def Let_def Rollback_def)
next
  assume a: "\<not> g_Balance grp <s rq_Amount req \<and> \<not> some_write_fails fails 4"
  note s = group_success [OF r m g, of fails "g_Balance grp - rq_Amount req"]
  from a d show "fst (snd (CreateGroupTransaction fails db userID req)) \<noteq> None"
    by (simp add: s)
  from a d show "group_balance (fst (CreateGroupTransaction fails db userID req)) groupID =
      Some (g_Balance grp - rq_Amount req)"
    by (simp add: s group_balance_saved [OF g])
qed

lemma debit_transfer:
  assumes m: "\<not> not_active_member db userID (tr_GroupID req)"
    and u: "user_row db userID = Some user"
  shows "(u_Balance user <s tr_Amount req \<longrightarrow>
            TransferToGroup fails db userID req =
              (db, app_error ''INSUFFICIENT_BALANCE'' ''Insufficient personal balance'')) \<and>
         (\<not> u_Balance user <s tr_Amount req \<and> \<not> some_write_fails fails 7 \<and>
          groupRepo_FindByID db (tr_GroupID req) \<noteq> None \<longrightarrow>
            fst (snd (TransferToGroup fails db userID req)) \<noteq> None \<and>
            user_balance (fst (TransferToGroup fails db userID req)) userID =
              Some (u_Balance user - tr_Amount req))"
proof (intro conjI impI)
  assume "u_Balance user <s tr_Amount req"
  then show "TransferToGroup fails db userID req =
      (db, app_error ''INSUFFICIENT_BALANCE'' ''Insufficient personal balance'')"
    using m u by (simp add: TransferToGroup_def Let_def Rollback_def)
next
  assume a: "\<not> u_Balance user <s tr_Amount req \<and> \<not> some_write_fails fails 7 \<and>
          groupRepo_FindByID db (tr_GroupID req) \<noteq> None"
  then obtain grp where g: "groupRepo_FindByID db (tr_GroupID req) = Some grp" by auto
  from a have b: "\<not> u_Balance user <s tr_Amount req" and f: "\<not> some_write_fails fails 7"
    by simp_all
  note s = transfer_success [OF m u g b f]
  show "fst (snd (TransferToGroup fails db userID req)) \<noteq> None"
    by (simp add: s Let_def)
  show "user_balance (fst (TransferToGroup fails db userID req)) userID =
      Some (u_Balance user - tr_Amount req)"
    by (simp add: s Let_def user_balance_saved [OF u])
qed

lemma debit_pay:
  assumes m: "\<not> not_active_member db userID groupID"
    and e: "expenseRepo_FindByID db (pr_PlannedExpenseID req) = Some expense"
    and eg: "pe_GroupID expense = Some groupID" and es: "pe_Status expense = ''planned''"
    and g: "groupRepo_FindByID db groupID = Some grp"
  shows "(g_Balance grp <s pr_ActualPrice req \<longrightarrow>
            PayGroupExpense fails now db userID groupID req =
              (db, app_error ''INSUFFICIENT_BALANCE'' ''Insufficient group balance'')) \<and>
         (\<not> g_Balance grp <s pr_ActualPrice req \<and> \<not> some_write_fails fails 5 \<longrightarrow>
            fst (snd (PayGroupExpense fails now db userID groupID req)) \<noteq> None \<and>
            group_balance (fst (PayGroupExpense fails now db userID groupID req)) groupID =
              Some (g_Balance grp - pr_ActualPrice req))"
proof (intro conjI impI)
  assume "g_Balance grp <s pr_ActualPrice req"
  then show "PayGroupExpense fails now db userID groupID req =
      (db, app_error ''INSUFFICIENT_BALANCE'' ''Insufficient group balance'')"
    using m e eg es g by (simp add: PayGroupExpense_def Let_def Rollback_def)
next
  assume a: "\<not> g_Balance grp <s pr_ActualPrice req \<and> \<not> some_write_fails fails 5"
  then have b: "\<not> g_Balance grp <s pr_ActualPrice req" and f: "\<not> some_write_fails fails 5"
    by simp_all
  note s = pay_success [OF m e eg es g b f]
  show "fst (snd (PayGroupExpense fails now db userID groupID req)) \<noteq> None"
    by (simp add: s Let_def)
  show "group_balance (fst (PayGroupExpense fails now db userID groupID req)) groupID =
      Some (g_Balance grp - pr_ActualPrice req)"
    by (simp add: s Let_def group_balance_saved [OF g])
qed

text \<open>
  Claim C2.  For each debit-performing operation (a personal or a group transaction whose
  type is not CREDIT, the user leg of a transfer, the payment of a group expense), once the
  checks that precede the balance check have passed (the owner exists, the acting user's
  membership is active, the expense is a planned expense of the group):
  \<^item> if the owner's balance is less than the requested amount, the operation returns the
    error INSUFFICIENT_BALANCE and the store, hence the balance, the transaction log and
    the audit log, is unchanged;
  \<^item> otherwise, when no write fails (and, for a transfer, the group exists), the
    operation returns a response and the owner's balance becomes the old balance minus
    the amount; this is zero when the amount equals the balance, and it is not negative
    when the amount is not negative.
\<close>

theorem debit_checked_against_balance:
  "(user_row db userID = Some user \<and> rq_Type req \<noteq> ''CREDIT'' \<longrightarrow>
      (u_Balance user <s rq_Amount req \<longrightarrow>
         CreatePersonalTransaction fails db userID req =
           (db, app_error ''INSUFFICIENT_BALANCE'' ''Insufficient balance'')) \<and>
      (\<not> u_Balance user <s rq_Amount req \<and> \<not> some_write_fails fails 4 \<longrightarrow>
         fst (snd (CreatePersonalTransaction fails db userID req)) \<noteq> None \<and>
         user_balance (fst (CreatePersonalTransaction fails db userID req)) userID =
           Some (u_Balance user - rq_Amount req) \<and>
         (rq_Amount req = u_Balance user \<longrightarrow>
            user_balance (fst (CreatePersonalTransaction fails db userID req)) userID = Some 0) \<and>
         (0 \<le>s rq_Amount req \<longrightarrow> 0 \<le>s u_Balance user - rq_Amount req))) \<and>
   (rq_GroupID greq = Some groupID \<and> \<not> not_active_member db userID groupID \<and>
    groupRepo_FindByID db groupID = Some grp \<and> rq_Type greq \<noteq> ''CREDIT'' \<longrightarrow>
      (g_Balance grp <s rq_Amount greq \<longrightarrow>
         CreateGroupTransaction fails db userID greq =
           (db, app_error ''INSUFFICIENT_BALANCE'' ''Insufficient group balance'')) \<and>
      (\<not> g_Balance grp <s rq_Amount greq \<and> \<not> some_write_fails fails 4 \<longrightarrow>
         fst (snd (CreateGroupTransaction fails db userID greq)) \<noteq> None \<and>
         group_balance (fst (CreateGroupTransaction fails db userID greq)) groupID =
           Some (g_Balance grp - rq_Amount greq) \<and>
         (rq_Amount greq = g_Balance grp \<longrightarrow>
            group_balance (fst (CreateGroupTransaction fails db userID greq)) groupID = Some 0) \<and>
         (0 \<le>s rq_Amount greq \<longrightarrow> 0 \<le>s g_Balance grp - rq_Amount greq))) \<and>
   (\<not> not_active_member db userID (tr_GroupID treq) \<and>
    user_row db userID = Some user \<longrightarrow>
      (u_Balance user <s tr_Amount treq \<longrightarrow>
         TransferToGroup fails db userID treq =
           (db, app_error ''INSUFFICIENT_BALANCE'' ''Insufficient personal balance'')) \<and>
      (\<not> u_Balance user <s tr_Amount treq \<and> \<not> some_write_fails fails 7 \<and>
       groupRepo_FindByID db (tr_GroupID treq) \<noteq> None \<longrightarrow>
         fst (snd (TransferToGroup fails db userID treq)) \<noteq> None \<and>
         user_balance (fst (TransferToGroup fails db userID treq)) userID =
           Some (u_Balance user - tr_Amount treq) \<and>
         (tr_Amount treq = u_Balance user \<longrightarrow>
            user_balance (fst (TransferToGroup fails db userID treq)) userID = Some 0) \<and>
         (0 \<le>s tr_Amount treq \<longrightarrow> 0 \<le>s u_Balance user - tr_Amount treq))) \<and>
   (\<not> not_active_member db userID groupID \<and>
    expenseRepo_FindByID db (pr_PlannedExpenseID preq) = Some expense \<and>
    pe_GroupID expense = Some groupID \<and> pe_Status expense = ''planned'' \<and>
    groupRepo_FindByID db groupID = Some grp \<longrightarrow>
      (g_Balance grp <s pr_ActualPrice preq \<longrightarrow>
         PayGroupExpense fails now db userID groupID preq =
           (db, app_error ''INSUFFICIENT_BALANCE'' ''Insufficient group balance'')) \<and>
      (\<not> g_Balance grp <s pr_ActualPrice preq \<and> \<not> some_write_fails fails 5 \<longrightarrow>
         fst (snd (PayGroupExpense fails now db userID groupID preq)) \<noteq> None \<and>
         group_balance (fst (PayGroupExpense fails now db userID groupID preq)) groupID =
           Some (g_Balance grp - pr_ActualPrice preq) \<and>
         (pr_ActualPrice preq = g_Balance grp \<longrightarrow>
            group_balance (fst (PayGroupExpense fails now db userID groupID preq)) groupID = Some 0) \<and>
         (0 \<le>s pr_ActualPrice preq \<longrightarrow> 0 \<le>s g_Balance grp - pr_ActualPrice preq)))"
proof (intro conjI impI; (elim conjE)?)
  show "0 \<le>s u_Balance user - rq_Amount req"
    if "\<not> u_Balance user <s rq_Amount req" "0 \<le>s rq_Amount req"
    using that by (rule debit_nonneg)
  show "0 \<le>s g_Balance grp - rq_Amount greq"
    if "\<not> g_Balance grp <s rq_Amount greq" "0 \<le>s rq_Amount greq"
    using that by (rule debit_nonneg)
  show "0 \<le>s u_Balance user - tr_Amount treq"
    if "\<not> u_Balance user <s tr_Amount treq" "0 \<le>s tr_Amount treq"
    using that by (rule debit_nonneg)
  show "0 \<le>s g_Balance grp - pr_ActualPrice preq"
    if "\<not> g_Balance grp <s pr_ActualPrice preq" "0 \<le>s pr_ActualPrice preq"
    using that by (rule debit_nonneg)
qed (use debit_personal [of db userID user req fails]
      debit_group [of greq groupID db userID grp fails]
      debit_transfer [of db userID treq user fails]
      debit_pay [of db userID groupID preq expense grp fails now] in simp_all)

theorem debit_checked_against_balance_witness:
  "user_row demo_db 1 = Some demo_user \<and>
   groupRepo_FindByID demo_db 10 = Some demo_group \<and>
   expenseRepo_FindByID demo_db 20 = Some demo_expense \<and>
   \<not> not_active_member demo_db 1 10 \<and>
   CreatePersonalTransaction no_fault demo_db 1 (demo_request ''DEBIT'' 1001 None) =
     (demo_db, app_error ''INSUFFICIENT_BALANCE'' ''Insufficient balance'') \<and>
   CreateGroupTransaction no_fault demo_db 1 (demo_request ''DEBIT'' 301 (Some 10)) =
     (demo_db, app_error ''INSUFFICIENT_BALANCE'' ''Insufficient group balance'') \<and>
   TransferToGroup no_fault demo_db 1 (demo_transfer 1001) =
     (demo_db, app_error ''INSUFFICIENT_BALANCE'' ''Insufficient personal balance'') \<and>
   PayGroupExpense no_fault 7 demo_db 1 10 (demo_payment 301) =
     (demo_db, app_error ''INSUFFICIENT_BALANCE'' ''Insufficient group balance'') \<and>
   user_balance
     (fst (CreatePersonalTransaction no_fault demo_db 1 (demo_request ''DEBIT'' 1000 None))) 1 =
     Some 0 \<and>
   group_balance
     (fst (CreateGroupTransaction no_fault demo_db 1 (demo_request ''DEBIT'' 300 (Some 10)))) 10 =
     Some 0 \<and>
   user_balance (fst (TransferToGroup no_fault demo_db 1 (demo_transfer 1000))) 1 = Some 0 \<and>
   group_balance (fst (PayGroupExpense no_fault 7 demo_db 1 10 (demo_payment 300))) 10 = Some 0"
proof -
  have amounts:
    "rq_Type (demo_request ''DEBIT'' a g) \<noteq> ''CREDIT''" "rq_Amount (demo_request t a g) = a"
    "rq_GroupID (demo_request t a g) = g" "tr_GroupID (demo_transfer a) = 10"
    "tr_Amount (demo_transfer a) = a" "pr_PlannedExpenseID (demo_payment a) = 20"
    "pr_ActualPrice (demo_payment a) = a" "u_Balance demo_user = 1000"
    "g_Balance demo_group = 300" "pe_GroupID demo_expense = Some 10"
    "pe_Status demo_expense = ''planned''" "\<not> some_write_fails no_fault n"
    for t a g n
    by (simp_all add: demo_defs some_write_fails_def no_fault_def list_ex_iff)
  show ?thesis
    using debit_checked_against_balance [where db = demo_db and userID = 1 and user = demo_user
        and fails = no_fault and now = 7 and groupID = 10 and grp = demo_group
        and expense = demo_expense and req = "demo_request ''DEBIT'' 1001 None"
        and greq = "demo_request ''DEBIT'' 301 (Some 10)" and treq = "demo_transfer 1001"
        and preq = "demo_payment 301"]
      debit_checked_against_balance [where db = demo_db and userID = 1 and user = demo_user
        and fails = no_fault and now = 7 and groupID = 10 and grp = demo_group
        and expense = demo_expense and req = "demo_request ''DEBIT'' 1000 None"
        and greq = "demo_request ''DEBIT'' 300 (Some 10)" and treq = "demo_transfer 1000"
        and preq = "demo_payment 300"]
    by (simp add: demo_lookups amounts word_sless_alt del: One_nat_def)
qed

section \<open>Balance arithmetic and the balance snapshot\<close>









section \<open>Paying a planned expense of a group\<close>

lemma expense_saved:
  assumes "expenseRepo_FindByID db i = Some e" and "pe_ID e' = pe_ID e"
    and "planned_expenses db' = planned_expenses (tx_Save_PlannedExpense db e')"
  shows "expenseRepo_FindByID db' i = Some e'"
proof -
  from assms(1) have f: "find (\<lambda>r. pe_ID r = i) (planned_expenses db) = Some e"
    by (simp add: expenseRepo_FindByID_def)
  then have i: "pe_ID e = i" and mem: "e \<in> set (planned_expenses db)"
    by (auto simp: find_Some_iff)
  have "find (\<lambda>r. pe_ID r = i) (map (\<lambda>r. if pe_ID r = i then e' else r) (planned_expenses db)) =
      Some e'"
    using find_map_replace [OF f, of e'] assms(2) i by simp
  then show ?thesis
    using mem i assms(2)
    by (auto simp: expenseRepo_FindByID_def assms(3) tx_Save_PlannedExpense_def list_ex_iff)
qed

lemma not_active_member_cong:
  "user_groups db' = user_groups db \<Longrightarrow>
   not_active_member db' userID groupID = not_active_member db userID groupID"
  by (simp add: not_active_member_def groupRepo_FindByUserAndGroup_def)

lemma expense_literal [simp]:
  "t_Type (expense_Transaction userID groupID preq e b) = ''DEBIT''"
  "t_Amount (expense_Transaction userID groupID preq e b) = pr_ActualPrice preq"
  "t_PlannedExpenseID (expense_Transaction userID groupID preq e b) =
     Some (pr_PlannedExpenseID preq)"
  "t_PaidBy (expense_Transaction userID groupID preq e b) = Some userID"
  by (simp_all add: expense_Transaction_def)



lemma pay_rejections:
  assumes m: "\<not> not_active_member db userID groupID"
  shows "expenseRepo_FindByID db (pr_PlannedExpenseID req) = None \<Longrightarrow>
       PayGroupExpense fails now db userID groupID req =
         (db, app_error ''EXPENSE_NOT_FOUND'' ''Planned expense not found'')"
    and "expenseRepo_FindByID db (pr_PlannedExpenseID req) = Some expense \<Longrightarrow>
       pe_GroupID expense \<noteq> Some groupID \<Longrightarrow>
          PayGroupExpense fails now db userID groupID req =
            (db, app_error ''FORBIDDEN'' ''Expense does not belong to this group'')"
    and "expenseRepo_FindByID db (pr_PlannedExpenseID req) = Some expense \<Longrightarrow>
       pe_GroupID expense = Some groupID \<Longrightarrow> pe_Status expense \<noteq> ''planned'' \<Longrightarrow>
          PayGroupExpense fails now db userID groupID req =
            (db, app_error ''INVALID_STATUS'' ''Expense is not in planned status'')"
    and "expenseRepo_FindByID db (pr_PlannedExpenseID req) = Some expense \<Longrightarrow>
       pe_GroupID expense = Some groupID \<Longrightarrow> pe_Status expense = ''planned'' \<Longrightarrow>
       groupRepo_FindByID db groupID = Some grp \<Longrightarrow> g_Balance grp <s pr_ActualPrice req \<Longrightarrow>
          PayGroupExpense fails now db userID groupID req =
            (db, app_error ''INSUFFICIENT_BALANCE'' ''Insufficient group balance'')"
  using m by (simp_all add: PayGroupExpense_def Let_def Rollback_def)

lemma pay_settles:
  assumes m: "\<not> not_active_member db userID groupID"
    and e: "expenseRepo_FindByID db (pr_PlannedExpenseID req) = Some expense"
    and eg: "pe_GroupID expense = Some groupID" and es: "pe_Status expense = ''planned''"
    and g: "groupRepo_FindByID db groupID = Some grp"
    and b: "\<not> g_Balance grp <s pr_ActualPrice req" and ok: "\<not> some_write_fails fails 5"
  shows "\<exists>t. snd (PayGroupExpense fails now db userID groupID req) =
                    (Some (mapTransactionToResponse t), None) \<and>
                  transactions (fst (PayGroupExpense fails now db userID groupID req)) =
                    transactions db @ [t] \<and>
                  t_OwnerType t = ''GROUP'' \<and> t_OwnerID t = groupID \<and>
                  t_Type t = ''DEBIT'' \<and> t_Amount t = pr_ActualPrice req \<and>
                  t_PlannedExpenseID t = Some (pr_PlannedExpenseID req) \<and>
                  t_PaidBy t = Some userID"
    and "group_balance (fst (PayGroupExpense fails now db userID groupID req)) groupID =
               Some (g_Balance grp - pr_ActualPrice req)"
    and "expenseRepo_FindByID (fst (PayGroupExpense fails now db userID groupID req))
                 (pr_PlannedExpenseID req) =
               Some (expense\<lparr>pe_Status := ''bought'',
                              pe_ActualPrice := Some (pr_ActualPrice req),
                              pe_PaidBy := Some userID, pe_PaidAt := Some now\<rparr>)"
    and "PayGroupExpense fails' now'
                 (fst (PayGroupExpense fails now db userID groupID req)) userID groupID req =
               (fst (PayGroupExpense fails now db userID groupID req),
                app_error ''INVALID_STATUS'' ''Expense is not in planned status'')"
proof -
  define t where "t = created (transactions db)
     (expense_Transaction userID groupID req expense (g_Balance grp - pr_ActualPrice req))"
  define db' where "db' = fst (PayGroupExpense fails now db userID groupID req)"
  note s = pay_success [OF m e eg es g b ok, of now, unfolded Let_def, folded t_def]
  have r: "snd (PayGroupExpense fails now db userID groupID req) =
      (Some (mapTransactionToResponse t), None)"
    by (simp add: s)
  have tr: "transactions db' = transactions db @ [t]"
    and gs: "groups db' = groups (tx_Save_Group db
        (grp\<lparr>g_Balance := g_Balance grp - pr_ActualPrice req\<rparr>))"
    and ps: "planned_expenses db' =
        planned_expenses (tx_Save_PlannedExpense db (bought now userID req expense))"
    and ug: "user_groups db' = user_groups db"
    by (simp_all add: db'_def s)
  have tf: "t_OwnerType t = ''GROUP'' \<and> t_OwnerID t = groupID \<and>
          t_Type t = ''DEBIT'' \<and> t_Amount t = pr_ActualPrice req \<and>
          t_PlannedExpenseID t = Some (pr_PlannedExpenseID req) \<and> t_PaidBy t = Some userID"
    by (simp add: t_def)
  have gb: "group_balance db' groupID = Some (g_Balance grp - pr_ActualPrice req)"
    by (rule group_balance_saved [OF g gs])
  have e': "expenseRepo_FindByID db' (pr_PlannedExpenseID req) =
      Some (bought now userID req expense)"
    by (rule expense_saved [OF e _ ps]) (simp add: bought_def)
  have m': "\<not> not_active_member db' userID groupID"
    using m by (simp add: not_active_member_cong [OF ug])
  have again: "PayGroupExpense fails' now' db' userID groupID req =
      (db', app_error ''INVALID_STATUS'' ''Expense is not in planned status'')"
    using m' eg by (simp add: PayGroupExpense_def e' bought_def)
  from r tr tf show "\<exists>t. snd (PayGroupExpense fails now db userID groupID req) =
                    (Some (mapTransactionToResponse t), None) \<and>
                  transactions (fst (PayGroupExpense fails now db userID groupID req)) =
                    transactions db @ [t] \<and>
                  t_OwnerType t = ''GROUP'' \<and> t_OwnerID t = groupID \<and>
                  t_Type t = ''DEBIT'' \<and> t_Amount t = pr_ActualPrice req \<and>
                  t_PlannedExpenseID t = Some (pr_PlannedExpenseID req) \<and>
                  t_PaidBy t = Some userID"
    unfolding db'_def by blast
  from gb show "group_balance (fst (PayGroupExpense fails now db userID groupID req)) groupID =
               Some (g_Balance grp - pr_ActualPrice req)"
    unfolding db'_def .
  from e' show "expenseRepo_FindByID (fst (PayGroupExpense fails now db userID groupID req))
                 (pr_PlannedExpenseID req) =
               Some (expense\<lparr>pe_Status := ''bought'',
                              pe_ActualPrice := Some (pr_ActualPrice req),
                              pe_PaidBy := Some userID, pe_PaidAt := Some now\<rparr>)"
    unfolding db'_def bought_def .
  from again show "PayGroupExpense fails' now'
                 (fst (PayGroupExpense fails now db userID groupID req)) userID groupID req =
               (fst (PayGroupExpense fails now db userID groupID req),
                app_error ''INVALID_STATUS'' ''Expense is not in planned status'')"
    unfolding db'_def .
qed

text \<open>
  Claim C5.  For an acting user whose membership check passes, \<open>PayGroupExpense\<close>
  \<^item> returns EXPENSE_NOT_FOUND when the planned expense does not exist;
  \<^item> returns FORBIDDEN when the expense is not an expense of the given group;
  \<^item> returns INVALID_STATUS when the expense of the group is not in status planned;
  \<^item> returns INSUFFICIENT_BALANCE when the group's balance is less than the actual price;
  each time leaving the store unchanged.  Otherwise, when no write fails, it returns the
  view of the one transaction it appended, a DEBIT of the group for the actual price whose
  planned-expense link is the expense and whose payer is the acting user; the group's
  balance is lowered by the actual price; the expense is stored with status bought and
  with the actual price, the payer and the payment time; and the same call made again on
  the resulting store, whatever the storage behaviour and the time, returns
  INVALID_STATUS and leaves that store unchanged.
\<close>

theorem pay_group_expense_contract:
  assumes m: "\<not> not_active_member db userID groupID"
  shows
   "(expenseRepo_FindByID db (pr_PlannedExpenseID req) = None \<longrightarrow>
       PayGroupExpense fails now db userID groupID req =
         (db, app_error ''EXPENSE_NOT_FOUND'' ''Planned expense not found'')) \<and>
    (expenseRepo_FindByID db (pr_PlannedExpenseID req) = Some expense \<longrightarrow>
       (pe_GroupID expense \<noteq> Some groupID \<longrightarrow>
          PayGroupExpense fails now db userID groupID req =
            (db, app_error ''FORBIDDEN'' ''Expense does not belong to this group'')) \<and>
       (pe_GroupID expense = Some groupID \<and> pe_Status expense \<noteq> ''planned'' \<longrightarrow>
          PayGroupExpense fails now db userID groupID req =
            (db, app_error ''INVALID_STATUS'' ''Expense is not in planned status'')) \<and>
       (pe_GroupID expense = Some groupID \<and> pe_Status expense = ''planned'' \<and>
        groupRepo_FindByID db groupID = Some grp \<longrightarrow>
          (g_Balance grp <s pr_ActualPrice req \<longrightarrow>
             PayGroupExpense fails now db userID groupID req =
               (db, app_error ''INSUFFICIENT_BALANCE'' ''Insufficient group balance'')) \<and>
          (\<not> g_Balance grp <s pr_ActualPrice req \<and> \<not> some_write_fails fails 5 \<longrightarrow>
             (\<exists>t. snd (PayGroupExpense fails now db userID groupID req) =
                    (Some (mapTransactionToResponse t), None) \<and>
                  transactions (fst (PayGroupExpense fails now db userID groupID req)) =
                    transactions db @ [t] \<and>
                  t_OwnerType t = ''GROUP'' \<and> t_OwnerID t = groupID \<and>
                  t_Type t = ''DEBIT'' \<and> t_Amount t = pr_ActualPrice req \<and>
                  t_PlannedExpenseID t = Some (pr_PlannedExpenseID req) \<and>
                  t_PaidBy t = Some userID) \<and>
             group_balance (fst (PayGroupExpense fails now db userID groupID req)) groupID =
               Some (g_Balance grp - pr_ActualPrice req) \<and>
             expenseRepo_FindByID (fst (PayGroupExpense fails now db userID groupID req))
                 (pr_PlannedExpenseID req) =
               Some (expense\<lparr>pe_Status := ''bought'',
                              pe_ActualPrice := Some (pr_ActualPrice req),
                              pe_PaidBy := Some userID, pe_PaidAt := Some now\<rparr>) \<and>
             PayGroupExpense fails' now'
                 (fst (PayGroupExpense fails now db userID groupID req)) userID groupID req =
               (fst (PayGroupExpense fails now db userID groupID req),
                app_error ''INVALID_STATUS'' ''Expense is not in planned status''))))"
  by (intro conjI impI; (elim conjE)?;
      (rule pay_rejections [OF m] pay_settles [OF m]; assumption))

theorem pay_group_expense_contract_witness:
  "\<not> not_active_member demo_db 1 10 \<and>
   expenseRepo_FindByID demo_db 20 = Some demo_expense \<and>
   expenseRepo_FindByID demo_db 21 = None \<and>
   pe_GroupID demo_expense = Some 10 \<and> pe_Status demo_expense = ''planned'' \<and>
   groupRepo_FindByID demo_db 10 = Some demo_group \<and>
   group_balance (fst (PayGroupExpense no_fault 7 demo_db 1 10 (demo_payment 250))) 10 =
     Some 50 \<and>
   expenseRepo_FindByID (fst (PayGroupExpense no_fault 7 demo_db 1 10 (demo_payment 250))) 20 =
     Some \<lparr>pe_ID = 20, pe_EstimatedPrice = 200, pe_ActualPrice = Some 250,
           pe_Category = ''food'', pe_Status = ''bought'', pe_GroupID = Some 10,
           pe_UserID = 1, pe_PaidBy = Some 1, pe_PaidAt = Some 7\<rparr> \<and>
   PayGroupExpense no_fault 8 (fst (PayGroupExpense no_fault 7 demo_db 1 10 (demo_payment 250)))
       1 10 (demo_payment 250) =
     (fst (PayGroupExpense no_fault 7 demo_db 1 10 (demo_payment 250)),
      app_error ''INVALID_STATUS'' ''Expense is not in planned status'') \<and>
   PayGroupExpense no_fault 7 demo_db 1 10 (demo_payment 301) =
     (demo_db, app_error ''INSUFFICIENT_BALANCE'' ''Insufficient group balance'') \<and>
   PayGroupExpense no_fault 7 demo_db 1 10 (demo_payment 250\<lparr>pr_PlannedExpenseID := 21\<rparr>) =
     (demo_db, app_error ''EXPENSE_NOT_FOUND'' ''Planned expense not found'')"
proof -
  have h: "expenseRepo_FindByID demo_db 21 = None"
    "pe_GroupID demo_expense = Some 10" "pe_Status demo_expense = ''planned''"
    "g_Balance demo_group = 300" "pr_ActualPrice (demo_payment a) = a"
    "pr_PlannedExpenseID (demo_payment a) = 20"
    "demo_expense\<lparr>pe_Status := ''bought'', pe_ActualPrice := Some 250,
        pe_PaidBy := Some 1, pe_PaidAt := Some 7\<rparr> =
      \<lparr>pe_ID = 20, pe_EstimatedPrice = 200, pe_ActualPrice = Some 250,
           pe_Category = ''food'', pe_Status = ''bought'', pe_GroupID = Some 10,
           pe_UserID = 1, pe_PaidBy = Some 1, pe_PaidAt = Some 7\<rparr>"
    for a
    by (simp_all add: demo_payment_def demo_expense_def demo_group_def
        expenseRepo_FindByID_def demo_db_def)
  show ?thesis
    using pay_group_expense_contract [OF demo_lookups(4), where req = "demo_payment 250"
        and expense = demo_expense and grp = demo_group and fails = no_fault and now = 7
        and fails' = no_fault and now' = 8]
      pay_group_expense_contract [OF demo_lookups(4), where req = "demo_payment 301"
        and expense = demo_expense and grp = demo_group and fails = no_fault and now = 7
        and fails' = no_fault and now' = 8]
      pay_group_expense_contract [OF demo_lookups(4),
        where req = "demo_payment 250\<lparr>pr_PlannedExpenseID := 21\<rparr>"
        and expense = demo_expense and grp = demo_group and fails = no_fault and now = 7
        and fails' = no_fault and now' = 8]
    by (simp add: h demo_lookups word_sless_alt del: One_nat_def)
qed

section \<open>Transfers from a member to a group\<close>

lemma transfer_literals [simp]:
  "t_Type (transfer_personal_Transaction userID treq b) = ''DEBIT''"
  "t_Amount (transfer_personal_Transaction userID treq b) = tr_Amount treq"
  "t_GroupID (transfer_personal_Transaction userID treq b) = Some (tr_GroupID treq)"
  "t_PaidBy (transfer_personal_Transaction userID treq b) = None"
  "t_Type (transfer_group_Transaction userID treq b) = ''CREDIT''"
  "t_Amount (transfer_group_Transaction userID treq b) = tr_Amount treq"
  "t_GroupID (transfer_group_Transaction userID treq b) = Some (tr_GroupID treq)"
  "t_PaidBy (transfer_group_Transaction userID treq b) = Some userID"
  by (simp_all add: transfer_personal_Transaction_def transfer_group_Transaction_def)




section \<open>Amounts that are not positive\<close>

text \<open>
  Claim C8, evaluated on the code.  \<open>RecordExternalIncome\<close> called by an active member with
  the amount -100 is not rejected: it lowers the group's balance from 300 to 200, appends
  a CREDIT row of amount -100 with its audit entry, and returns that row to the caller.
\<close>

theorem external_income_accepts_negative_amount:
  "- 100 <s (0 :: int64) \<and>
   group_balance demo_db 10 = Some 300 \<and>
   RecordExternalIncome no_fault demo_db 1 10 (- 100) ''gift'' =
     (demo_db\<lparr>groups := [\<lparr>g_ID = 10, g_Balance = 200\<rparr>],
              transactions := transactions demo_db @
                [\<lparr>t_ID = 3, t_OwnerType = ''GROUP'', t_OwnerID = 10, t_Type = ''CREDIT'',
                  t_Amount = - 100, t_Balance = 200, t_Category = ''external_income'',
                  t_Source = ''gift'', t_Description = ''External contribution'',
                  t_Metadata = [(''external_income'', JBool True), (''source'', JStr ''gift'')],
                  t_GroupID = Some 10, t_PaidBy = None, t_PlannedExpenseID = None,
                  t_UserID = 1\<rparr>],
              audit_logs :=
                [\<lparr>al_ID = 1, al_Entity = ''transaction'', al_EntityID = 3,
                  al_Action = ''record_external_income'',
                  al_Changes = [(''amount'', JInt (- 100)), (''source'', JStr ''gift'')],
                  al_PerformedBy = 1, al_GroupID = Some 10\<rparr>]\<rparr>,
      (Some \<lparr>rs_ID = 3, rs_OwnerType = ''GROUP'', rs_OwnerID = 10, rs_Type = ''CREDIT'',
            rs_Amount = - 100, rs_Balance = 200, rs_Category = ''external_income'',
            rs_Source = ''gift'', rs_Description = ''External contribution'',
            rs_GroupID = Some 10, rs_PaidBy = None, rs_PlannedExpenseID = None\<rparr>, None))"
  by (subst income_success [OF demo_lookups(4) demo_lookups(2) no_fault_ok])
     (simp add: demo_defs eval_defs word_sless_alt group_balance_def groupRepo_FindByID_def)

end
